theory Spec2Isabelle
  imports Complex_Main "HOL-Library.Sublist" "HOL-Library.Monad_Syntax"
begin

section \<open>JavaScript strings\<close>

text \<open>
  Strings are lists of 8-bit characters, read as the code units U+0000 to U+00FF.
  The white space of \<^verbatim>\<open>String.prototype.trim\<close> and of the regular expression class
  \<^verbatim>\<open>\s\<close> in that range is TAB, LF, VT, FF, CR, SP and NBSP; \<^verbatim>\<open>\d\<close> is the ten ASCII
  digits. The case conversions are the ASCII ones.
\<close>

definition isWhiteSpace :: "char \<Rightarrow> bool" where
  "isWhiteSpace c = (c \<in> set [CHR 0x09, CHR 0x0A, CHR 0x0B, CHR 0x0C, CHR 0x0D, CHR 0x20, CHR 0xA0])"

definition isDigit :: "char \<Rightarrow> bool" where
  "isDigit c = (c \<in> set ''0123456789'')"

definition trim :: "string \<Rightarrow> string" where
  "trim s = rev (dropWhile isWhiteSpace (rev (dropWhile isWhiteSpace s)))"

text \<open>\<^verbatim>\<open>s.includes(t)\<close>: \<open>t\<close> occurs in \<open>s\<close> as a contiguous substring.\<close>

fun str_includes :: "string \<Rightarrow> string \<Rightarrow> bool" where
  "str_includes [] t = (t = [])"
| "str_includes (c # cs) t = (prefix t (c # cs) \<or> str_includes cs t)"

definition startsWith :: "string \<Rightarrow> string \<Rightarrow> bool" where
  "startsWith s t = prefix t s"

definition upperChar :: "char \<Rightarrow> char" where
  "upperChar c =
     (case map_of (zip ''abcdefghijklmnopqrstuvwxyz'' ''ABCDEFGHIJKLMNOPQRSTUVWXYZ'') c of
        Some u \<Rightarrow> u | None \<Rightarrow> c)"

definition lowerChar :: "char \<Rightarrow> char" where
  "lowerChar c =
     (case map_of (zip ''ABCDEFGHIJKLMNOPQRSTUVWXYZ'' ''abcdefghijklmnopqrstuvwxyz'') c of
        Some l \<Rightarrow> l | None \<Rightarrow> c)"

definition toUpperCase :: "string \<Rightarrow> string" where
  "toUpperCase s = map upperChar s"

definition toLowerCase :: "string \<Rightarrow> string" where
  "toLowerCase s = map lowerChar s"

definition digitVal :: "char \<Rightarrow> nat" where
  "digitVal c = (case map_of (zip ''0123456789'' [0, 1, 2, 3, 4, 5, 6, 7, 8, 9]) c of
                   Some d \<Rightarrow> d | None \<Rightarrow> 0)"

text \<open>The value of a run of decimal digits, as \<^verbatim>\<open>parseInt\<close> reads it.\<close>

definition digitsVal :: "string \<Rightarrow> nat" where
  "digitsVal ds = foldl (\<lambda>n c. 10 * n + digitVal c) 0 ds"



section \<open>JavaScript values\<close>

text \<open>
  What \<^verbatim>\<open>YAML.parse\<close> returns: null, booleans, numbers, strings, arrays and objects
  (with their keys in order). Numbers are rationals; the YAML numbers \<^verbatim>\<open>.nan\<close> and
  \<^verbatim>\<open>.inf\<close> are left out. A property that an object lacks reads as \<^verbatim>\<open>undefined\<close>, here
  \<open>None\<close>.
\<close>

datatype yaml =
    YNull | YBool bool | YNum rat | YStr string | YSeq "yaml list" | YMap "(string \<times> yaml) list"

text \<open>A number that may be \<^verbatim>\<open>NaN\<close>.\<close>

datatype jsnum = Num rat | NaN

definition jsAdd :: "jsnum \<Rightarrow> jsnum \<Rightarrow> jsnum" where
  "jsAdd a b = (case (a, b) of (Num x, Num y) \<Rightarrow> Num (x + y) | _ \<Rightarrow> NaN)"

definition jsMul :: "jsnum \<Rightarrow> jsnum \<Rightarrow> jsnum" where
  "jsMul a b = (case (a, b) of (Num x, Num y) \<Rightarrow> Num (x * y) | _ \<Rightarrow> NaN)"

definition jsCeil :: "jsnum \<Rightarrow> jsnum" where
  "jsCeil a = (case a of Num x \<Rightarrow> Num (of_int \<lceil>x\<rceil>) | NaN \<Rightarrow> NaN)"

fun truthy :: "yaml \<Rightarrow> bool" where
  "truthy YNull = False"
| "truthy (YBool b) = b"
| "truthy (YNum n) = (n \<noteq> 0)"
| "truthy (YStr s) = (s \<noteq> [])"
| "truthy (YSeq xs) = True"
| "truthy (YMap kvs) = True"

text \<open>\<^verbatim>\<open>v[name]\<close> for the property names the scripts use; only objects have them.\<close>

fun property :: "yaml \<Rightarrow> string \<Rightarrow> yaml option" where
  "property (YMap kvs) key = map_of kvs key"
| "property _ key = None"

text \<open>\<^verbatim>\<open>v || d\<close> for a property read \<open>v\<close>.\<close>

definition orElse :: "yaml option \<Rightarrow> yaml \<Rightarrow> yaml" where
  "orElse v d = (case v of None \<Rightarrow> d | Some x \<Rightarrow> if truthy x then x else d)"

text \<open>
  \<^verbatim>\<open>parseInt\<close> of a string: leading white space, an optional sign, then decimal
  digits as far as they go (hexadecimal digits after a prefix \<^verbatim>\<open>0x\<close>); \<^verbatim>\<open>NaN\<close> when
  there is no digit.
\<close>

definition hexDigitVal :: "char \<Rightarrow> nat option" where
  "hexDigitVal c =
     map_of (zip ''0123456789abcdefABCDEF''
               [0, 1, 2, 3, 4, 5, 6, 7, 8, 9, 10, 11, 12, 13, 14, 15, 10, 11, 12, 13, 14, 15]) c"

definition parseUnsigned :: "string \<Rightarrow> jsnum" where
  "parseUnsigned s =
     (if prefix ''0x'' s \<or> prefix ''0X'' s then
        (let hs = takeWhile (\<lambda>c. hexDigitVal c \<noteq> None) (drop 2 s)
         in if hs = [] then NaN
            else Num (of_nat (foldl (\<lambda>n c. 16 * n + the (hexDigitVal c)) 0 hs)))
      else
        (let ds = takeWhile isDigit s
         in if ds = [] then NaN else Num (of_nat (digitsVal ds))))"

definition jsNeg :: "jsnum \<Rightarrow> jsnum" where
  "jsNeg a = (case a of Num x \<Rightarrow> Num (- x) | NaN \<Rightarrow> NaN)"

definition parseIntStr :: "string \<Rightarrow> jsnum" where
  "parseIntStr s =
     (case dropWhile isWhiteSpace s of
        [] \<Rightarrow> NaN
      | c # cs \<Rightarrow>
          if c = CHR ''-'' then jsNeg (parseUnsigned cs)
          else if c = CHR ''+'' then parseUnsigned cs
          else parseUnsigned (c # cs))"

text \<open>
  \<^verbatim>\<open>parseInt(v)\<close> converts \<open>v\<close> to a string first. A number in positional notation
  (of magnitude below \<^verbatim>\<open>1e21\<close> and, if not 0, at least \<^verbatim>\<open>1e-6\<close>) gives its integer part;
  an array prints its elements separated by commas, so its first element decides.
\<close>

fun parseInt :: "yaml \<Rightarrow> jsnum" where
  "parseInt (YNum r) = Num (of_int (if r \<ge> 0 then \<lfloor>r\<rfloor> else \<lceil>r\<rceil>))"
| "parseInt (YStr s) = parseIntStr s"
| "parseInt (YSeq (x # xs)) = parseInt x"
| "parseInt _ = NaN"

text \<open>
  \<^verbatim>\<open>Number(v)\<close>, the conversion that \<^verbatim>\<open>*\<close> applies. Of the numeric strings only the
  plain runs of decimal digits are covered.
\<close>

fun toNumber :: "yaml \<Rightarrow> jsnum" where
  "toNumber YNull = Num 0"
| "toNumber (YBool b) = Num (if b then 1 else 0)"
| "toNumber (YNum r) = Num r"
| "toNumber (YStr s) =
     (if trim s = [] then Num 0
      else if list_all isDigit (trim s) then Num (of_nat (digitsVal (trim s)))
      else NaN)"
| "toNumber (YSeq []) = Num 0"
| "toNumber (YSeq [YBool b]) = NaN"
| "toNumber (YSeq [x]) = toNumber x"
| "toNumber (YSeq _) = NaN"
| "toNumber (YMap _) = NaN"

text \<open>
  Reading and parsing the script file: the file is missing (\<^verbatim>\<open>ENOENT\<close>), or reading
  or parsing it throws another error, or it parses to a value.
\<close>

datatype loaded = NotFound | Unparsable | Parsed yaml

text \<open>
  The errors thrown, by the template of their message:
  \<^verbatim>\<open>Telnet connection failed: ...\<close> and \<^verbatim>\<open>Telnet connection timeout\<close>;
  \<^verbatim>\<open>Signed-in mode requires a RASP script...\<close>;
  \<^verbatim>\<open>RASP script file not found: ${path}\<close>;
  \<^verbatim>\<open>Failed to parse RASP script: ${message}\<close>;
  \<^verbatim>\<open>RASP script must contain a "steps" array\<close>;
  \<^verbatim>\<open>Failed to execute step ${stepType}: ${message}\<close>;
  \<^verbatim>\<open>Required environment variable not set: ${envVarName}. Set it with: ...\<close>;
  the error of a request that axios rejects; the parser's error; and the
  \<^verbatim>\<open>TypeError\<close> of a property read on \<^verbatim>\<open>null\<close> or of a call of a method the value
  does not have.
\<close>

datatype exn =
    TelnetConnectionFailed
  | SignInRequiresScript
  | ScriptNotFound
  | ScriptParseFailed exn
  | MissingStepsArray
  | StepFailed string exn
  | EnvironmentVariableNotSet string
  | RequestFailed
  | ParseError
  | TypeError


section \<open>The tester (src/unnamed/part_000, lib/tester)\<close>

subsection \<open>Results, requests and the tester object\<close>

text \<open>
  The error of a result is one of two template strings:
  \<^verbatim>\<open>'Failed to send ECP command'\<close> and
  \<^verbatim>\<open>`Timeout after ${duration}ms. Missing: ${missing.join(', ')}`\<close>;
  the second is kept as its two parameters.
\<close>

datatype failure = FailedToSendEcp | Timeout int "string list"

text \<open>
  The object a wait resolves with. \<open>beaconsFound\<close> is its \<^verbatim>\<open>beaconsReceived\<close> field.
  A field the source leaves out of an object reads as \<open>None\<close> or, for
  \<^verbatim>\<open>playbackStarted\<close>, which is only tested for truth, as \<open>False\<close>.
\<close>

record wait_result =
  passed :: bool
  duration :: int
  error :: "failure option"
  playbackStarted :: bool
  contentType :: "string option"
  beaconsFound :: "string list"

text \<open>
  An entry of \<^verbatim>\<open>testResults\<close>: the wait's object spread into the test's own fields.
  \<open>timings\<close> is the content of \<^verbatim>\<open>beaconTimings\<close> when the entry is made (the source
  stores a reference to the object, which the data handler keeps updating until the
  next test replaces it).
\<close>

record test_result = wait_result +
  testName :: string
  command :: string
  expectedBeacons :: "string list"
  timings :: "string \<rightharpoonup> nat option"
  detectedType :: "string option"

text \<open>
  What the program sends to the device, without the host part of the URL:
  \<^verbatim>\<open>POST /input?params\<close>, \<^verbatim>\<open>POST /{command}/{appId}?params\<close>,
  \<^verbatim>\<open>POST /keypress/{key}\<close>, and from the script runner
  \<^verbatim>\<open>POST /launch/{actualChannelId}\<close> and \<^verbatim>\<open>POST /keypress/Lit_{encodeURIComponent(char)}\<close>
  (kept as the character itself).
\<close>

datatype request =
    EcpInput "(string \<times> string) list"
  | EcpApp string string "(string \<times> string) list"
  | EcpKeypress string
  | EcpLaunchChannel yaml
  | EcpLit char

text \<open>
  The effects visible from outside, in order: requests, and timers with the delay
  (in ms) that \<^verbatim>\<open>setTimeout\<close> is called with.
\<close>

datatype effect = Request request | Sleep jsnum

text \<open>
  The fields of \<^verbatim>\<open>RokuDeepLinkTester\<close> that the tests read or write, the options among
  them, together with the program's surroundings: the clock \<open>now\<close> that
  \<^verbatim>\<open>Date.now()\<close> reads, the log of effects, the process environment and what loading
  the file at \<^verbatim>\<open>options.script\<close> gives. The clock advances only while the program is
  suspended. \<open>waitTime\<close> is \<^verbatim>\<open>parseInt(options.wait) * 1000\<close> for an \<^verbatim>\<open>options.wait\<close>
  that parses to an integer. Console output is not modelled.
\<close>

record tester =
  appId :: string
  contentId :: string
  mediaType :: string
  waitTime :: int
  isSignedIn :: bool
  inputOnly :: bool
  launchOnly :: bool
  expectBeacon :: "string option"
  script :: "string option"
  beaconsReceived :: "string set"
  beaconTimings :: "string \<rightharpoonup> nat option"
  detectedContentType :: "string option"
  testResults :: "test_result list"
  signInDuration :: "int option"
  telnetLogBuffer :: "string list"
  now :: int
  effects :: "effect list"
  environ :: "string \<rightharpoonup> string"
  scriptFile :: loaded

definition maxLogBuffer :: nat where
  "maxLogBuffer = 50"


subsection \<open>extractTiming\<close>

text \<open>
  The regular expression \<^verbatim>\<open>${timingType}\((\d+)\s*ms\)\<close> matched at the start of a
  string. The digit and white-space runs are followed by a character of another
  class, so the greedy match is the only one. The result is \<^verbatim>\<open>parseInt(match[1])\<close>.
\<close>

definition matchHere :: "string \<Rightarrow> string \<Rightarrow> nat option" where
  "matchHere timingType s =
     (if prefix (timingType @ ''('') s then
        (let r = drop (length timingType + 1) s;
             ds = takeWhile isDigit r;
             r' = dropWhile isDigit r
         in if ds = [] then None
            else if prefix ''ms)'' (dropWhile isWhiteSpace r') then Some (digitsVal ds)
            else None)
      else None)"

text \<open>\<^verbatim>\<open>logData.match(regex)\<close>: the leftmost match; \<open>None\<close> is \<^verbatim>\<open>null\<close>.\<close>

fun extractTiming :: "string \<Rightarrow> string \<Rightarrow> nat option" where
  "extractTiming [] timingType = matchHere timingType []"
| "extractTiming (c # cs) timingType =
     (case matchHere timingType (c # cs) of
        Some n \<Rightarrow> Some n
      | None \<Rightarrow> extractTiming cs timingType)"


subsection \<open>The telnet data handler\<close>

definition addBeacon :: "string \<Rightarrow> tester \<Rightarrow> tester" where
  "addBeacon b w = w\<lparr>beaconsReceived := insert b (beaconsReceived w)\<rparr>"

definition addTimedBeacon :: "string \<Rightarrow> nat option \<Rightarrow> tester \<Rightarrow> tester" where
  "addTimedBeacon b t w =
     w\<lparr>beaconsReceived := insert b (beaconsReceived w),
       beaconTimings := (beaconTimings w)(b \<mapsto> t)\<rparr>"

definition pushLog :: "string \<Rightarrow> tester \<Rightarrow> tester" where
  "pushLog logData w =
     (let b = telnetLogBuffer w @ [logData]
      in w\<lparr>telnetLogBuffer := (if length b > maxLogBuffer then tl b else b)\<rparr>)"

text \<open>The handler of the socket's \<^verbatim>\<open>'data'\<close> event, for one chunk.\<close>

definition onData :: "string \<Rightarrow> tester \<Rightarrow> tester" where
  "onData data w =
     (let logData = trim data in
      if logData = [] then w
      else
        let w1 = pushLog logData w;
            w2 = (if str_includes logData ''AppLaunchComplete'' then
                    (if str_includes logData ''Duration('' \<and> str_includes logData ''ms)''
                     then addTimedBeacon ''AppLaunchComplete''
                            (extractTiming logData ''Duration'') w1
                     else w1)
                  else w1);
            w3 = (if str_includes logData ''AppDialogInitiate''
                  then addBeacon ''AppDialogInitiate'' w2 else w2);
            w4 = (if str_includes logData ''VODStartInitiate''
                  then addTimedBeacon ''VODStartInitiate''
                         (extractTiming logData ''TimeBase'') w3
                  else w3);
            w5 = (if str_includes logData ''VODStartComplete''
                  then addTimedBeacon ''VODStartComplete''
                         (extractTiming logData ''Duration'') w4
                  else w4);
            w6 = (if str_includes logData ''LiveStartInitiate''
                  then addTimedBeacon ''LiveStartInitiate''
                         (extractTiming logData ''TimeBase'') w5
                  else w5);
            w7 = (if str_includes logData ''LiveStartComplete''
                  then addTimedBeacon ''LiveStartComplete''
                         (extractTiming logData ''Duration'') w6
                  else w6)
        in w7)"


subsection \<open>Suspension points\<close>

text \<open>
  The program is one thread of control on an event loop. At every \<^verbatim>\<open>await\<close> of a timer
  or of a request it is suspended; the data handler runs for the chunks the socket
  delivers meanwhile, and the clock moves on. An \<open>event\<close> says what happens during
  one suspension; the list of events to come is the program's environment, and a
  program that reaches a suspension with no event left is still waiting: its result
  is \<open>None\<close>.
\<close>

record event =
  arrived :: "string list"
  resumedAt :: int
  succeeded :: bool

definition resume :: "event \<Rightarrow> tester \<Rightarrow> tester" where
  "resume e w = (fold onData (arrived e) w)\<lparr>now := resumedAt e\<rparr>"

text \<open>\<^verbatim>\<open>await new Promise(resolve => setTimeout(resolve, ms))\<close>\<close>

fun sleep :: "jsnum \<Rightarrow> event list \<Rightarrow> tester \<Rightarrow> (tester \<times> event list) option" where
  "sleep ms [] w = None"
| "sleep ms (e # es) w = Some (resume e (w\<lparr>effects := effects w @ [Sleep ms]\<rparr>), es)"

text \<open>
  \<^verbatim>\<open>await axios.post(url, '', ...)\<close>: the result says whether the request was answered
  with success within its timeout; otherwise axios throws.
\<close>

fun post :: "request \<Rightarrow> event list \<Rightarrow> tester \<Rightarrow> (bool \<times> tester \<times> event list) option" where
  "post r [] w = None"
| "post r (e # es) w =
     Some (succeeded e, resume e (w\<lparr>effects := effects w @ [Request r]\<rparr>), es)"

definition sendEcpCommand ::
  "string \<Rightarrow> (string \<times> string) list \<Rightarrow> event list \<Rightarrow> tester
     \<Rightarrow> (bool \<times> tester \<times> event list) option" where
  "sendEcpCommand cmd params es w =
     post (if cmd = ''input'' then EcpInput params else EcpApp cmd (appId w) params) es w"

definition sendEcpKeypress ::
  "string \<Rightarrow> event list \<Rightarrow> tester \<Rightarrow> (bool \<times> tester \<times> event list) option" where
  "sendEcpKeypress key es w = post (EcpKeypress key) es w"


subsection \<open>waitForBeacons (exact mode)\<close>

definition BEACON_GRACE_PERIOD :: int where
  "BEACON_GRACE_PERIOD = 2000"

text \<open>\<^verbatim>\<open>beaconsReceived.has(beacon) && !initialBeacons.has(beacon)\<close>\<close>

definition fresh :: "string set \<Rightarrow> tester \<Rightarrow> string \<Rightarrow> bool" where
  "fresh initialBeacons w beacon = (beacon \<in> beaconsReceived w \<and> beacon \<notin> initialBeacons)"

text \<open>
  One run of the closure \<^verbatim>\<open>checkBeacons\<close> of \<^verbatim>\<open>waitForBeacons\<close>. \<open>Inl\<close> is the object
  the promise is resolved with; \<open>Inr\<close> is the value of \<^verbatim>\<open>allBeaconsFoundAt\<close> when the
  run ends by re-arming the 500 ms timer. \<^verbatim>\<open>!allBeaconsFoundAt\<close> holds for \<^verbatim>\<open>null\<close>
  and for 0.
\<close>

definition checkBeacons ::
  "string list \<Rightarrow> int \<Rightarrow> int \<Rightarrow> string set \<Rightarrow> int option \<Rightarrow> tester
     \<Rightarrow> wait_result + int option" where
  "checkBeacons expected timeout startTime initialBeacons allBeaconsFoundAt w =
     (let newBeacons = filter (fresh initialBeacons w) expected;
          elapsed = now w - startTime;
          allFound = (length newBeacons = length expected);
          foundAt = (if allFound \<and> (allBeaconsFoundAt = None \<or> allBeaconsFoundAt = Some 0)
                     then Some (now w) else allBeaconsFoundAt)
      in if allFound \<and> (case foundAt of None \<Rightarrow> False
                                      | Some t \<Rightarrow> now w - t \<ge> BEACON_GRACE_PERIOD)
         then Inl \<lparr>passed = True, duration = now w - startTime, error = None,
                   playbackStarted = False, contentType = None,
                   beaconsFound = newBeacons\<rparr>
         else if elapsed \<ge> timeout
         then Inl \<lparr>passed = False, duration = elapsed,
                   error = Some (Timeout elapsed
                             (filter (\<lambda>beacon. beacon \<notin> beaconsReceived w) expected)),
                   playbackStarted = False, contentType = None,
                   beaconsFound = newBeacons\<rparr>
         else Inr foundAt)"

fun pollBeacons ::
  "string list \<Rightarrow> int \<Rightarrow> int \<Rightarrow> string set \<Rightarrow> int option \<Rightarrow> event list \<Rightarrow> tester
     \<Rightarrow> (wait_result \<times> tester \<times> event list) option" where
  "pollBeacons expected timeout startTime initialBeacons foundAt [] w =
     (case checkBeacons expected timeout startTime initialBeacons foundAt w of
        Inl r \<Rightarrow> Some (r, w, [])
      | Inr _ \<Rightarrow> None)"
| "pollBeacons expected timeout startTime initialBeacons foundAt (e # es) w =
     (case checkBeacons expected timeout startTime initialBeacons foundAt w of
        Inl r \<Rightarrow> Some (r, w, e # es)
      | Inr foundAt' \<Rightarrow>
          pollBeacons expected timeout startTime initialBeacons foundAt' es
            (resume e (w\<lparr>effects := effects w @ [Sleep (Num 500)]\<rparr>)))"

text \<open>
  \<^verbatim>\<open>waitForBeacons(testName, expectedBeacons, timeout)\<close>; the test name is only
  logged. The first check runs at once, before any suspension.
\<close>

definition waitForBeacons ::
  "string list \<Rightarrow> int \<Rightarrow> event list \<Rightarrow> tester
     \<Rightarrow> (wait_result \<times> tester \<times> event list) option" where
  "waitForBeacons expected timeout es w =
     pollBeacons expected timeout (now w) (beaconsReceived w) None es w"


text \<open>
  The tester after the loop has gone through the timers of the events \<open>es\<close>, one
  after the other.
\<close>

definition afterTicks :: "event list \<Rightarrow> tester \<Rightarrow> tester" where
  "afterTicks es w =
     fold (\<lambda>e w. resume e (w\<lparr>effects := effects w @ [Sleep (Num 500)]\<rparr>)) es w"


subsection \<open>waitForBeaconsWithSmartDetection (smart mode)\<close>

definition getFoundBeacons :: "string list \<Rightarrow> string set \<Rightarrow> tester \<Rightarrow> string list" where
  "getFoundBeacons expected initialBeacons w =
     (if ''AppLaunchComplete'' \<in> set expected \<and> fresh initialBeacons w ''AppLaunchComplete''
      then [''AppLaunchComplete''] else [])
     @ (if ''VideoPlaybackStart'' \<in> set expected then
          (if ''VODStartInitiate'' \<in> beaconsReceived w \<and> ''VODStartComplete'' \<in> beaconsReceived w
           then [''VODStartInitiate'', ''VODStartComplete'']
           else if ''LiveStartInitiate'' \<in> beaconsReceived w
                   \<and> ''LiveStartComplete'' \<in> beaconsReceived w
           then [''LiveStartInitiate'', ''LiveStartComplete'']
           else [])
        else [])"

text \<open>
  The video part of one tick: the values of the locals \<^verbatim>\<open>videoPlaybackFound\<close>,
  \<^verbatim>\<open>playbackStarted\<close> and \<^verbatim>\<open>contentType\<close> after the \<^verbatim>\<open>if\<close> on
  \<^verbatim>\<open>'VideoPlaybackStart'\<close>.
\<close>

definition videoCheck :: "string list \<Rightarrow> string set \<Rightarrow> tester \<Rightarrow> bool \<times> bool \<times> string option" where
  "videoCheck expected initialBeacons w =
     (if ''VideoPlaybackStart'' \<in> set expected then
        (let vodInitiate = fresh initialBeacons w ''VODStartInitiate'';
             vodComplete = fresh initialBeacons w ''VODStartComplete'';
             liveInitiate = fresh initialBeacons w ''LiveStartInitiate'';
             liveComplete = fresh initialBeacons w ''LiveStartComplete''
         in if vodInitiate \<and> vodComplete then (True, True, Some ''VOD'')
            else if liveInitiate \<and> liveComplete then (True, True, Some ''Live'')
            else (False, False, None))
      else (True, False, None))"

definition appLaunchCheck :: "string list \<Rightarrow> string set \<Rightarrow> tester \<Rightarrow> bool" where
  "appLaunchCheck expected initialBeacons w =
     (if ''AppLaunchComplete'' \<in> set expected
      then fresh initialBeacons w ''AppLaunchComplete'' else True)"

text \<open>
  One run of the closure \<^verbatim>\<open>checkBeacons\<close> of the smart wait: the object the promise is
  resolved with, if any, and the tester, whose \<^verbatim>\<open>detectedContentType\<close> the run
  assigns whenever it finds a pair.
\<close>

definition checkBeaconsSmart ::
  "string list \<Rightarrow> int \<Rightarrow> int \<Rightarrow> string set \<Rightarrow> tester \<Rightarrow> wait_result option \<times> tester" where
  "checkBeaconsSmart expected timeout startTime initialBeacons w =
     (let elapsed = now w - startTime;
          appLaunchFound = appLaunchCheck expected initialBeacons w;
          (videoPlaybackFound, started, ctype) = videoCheck expected initialBeacons w;
          w' = (case ctype of None \<Rightarrow> w | Some t \<Rightarrow> w\<lparr>detectedContentType := Some t\<rparr>)
      in if appLaunchFound \<and> videoPlaybackFound
         then (Some \<lparr>passed = True, duration = now w - startTime, error = None,
                     playbackStarted = started, contentType = ctype,
                     beaconsFound = getFoundBeacons expected initialBeacons w\<rparr>, w')
         else if elapsed \<ge> timeout
         then (Some \<lparr>passed = False, duration = elapsed,
                     error = Some (Timeout elapsed
                       ((if ''AppLaunchComplete'' \<in> set expected \<and> \<not> appLaunchFound
                         then [''AppLaunchComplete''] else [])
                        @ (if ''VideoPlaybackStart'' \<in> set expected \<and> \<not> videoPlaybackFound
                           then [''Video playback beacons (VOD or Live)''] else []))),
                     playbackStarted = False, contentType = None,
                     beaconsFound = getFoundBeacons expected initialBeacons w\<rparr>, w')
         else (None, w'))"

fun pollSmart ::
  "string list \<Rightarrow> int \<Rightarrow> int \<Rightarrow> string set \<Rightarrow> event list \<Rightarrow> tester
     \<Rightarrow> (wait_result \<times> tester \<times> event list) option" where
  "pollSmart expected timeout startTime initialBeacons [] w =
     (case checkBeaconsSmart expected timeout startTime initialBeacons w of
        (Some r, w') \<Rightarrow> Some (r, w', [])
      | (None, _) \<Rightarrow> None)"
| "pollSmart expected timeout startTime initialBeacons (e # es) w =
     (case checkBeaconsSmart expected timeout startTime initialBeacons w of
        (Some r, w') \<Rightarrow> Some (r, w', e # es)
      | (None, w') \<Rightarrow>
          pollSmart expected timeout startTime initialBeacons es
            (resume e (w'\<lparr>effects := effects w' @ [Sleep (Num 500)]\<rparr>)))"

definition waitForBeaconsWithSmartDetection ::
  "string list \<Rightarrow> int \<Rightarrow> event list \<Rightarrow> tester
     \<Rightarrow> (wait_result \<times> tester \<times> event list) option" where
  "waitForBeaconsWithSmartDetection expected timeout es w =
     pollSmart expected timeout (now w) (beaconsReceived w) es w"


subsection \<open>runDeepLinkTest, runInputTest, runDeepLinkTests\<close>

definition requiredBeacons :: "string \<Rightarrow> tester \<Rightarrow> string list" where
  "requiredBeacons cmd w =
     (if cmd = ''launch'' then [''AppLaunchComplete''] else [])
     @ (if mediaType w = ''movie'' \<or> mediaType w = ''episode''
        then [''VideoPlaybackStart''] else [])
     @ (case expectBeacon w of None \<Rightarrow> [] | Some b \<Rightarrow> if b = [] then [] else [b])"

text \<open>\<^verbatim>\<open>this.beaconsReceived.clear(); this.beaconTimings = {}\<close>\<close>

definition clearBeacons :: "tester \<Rightarrow> tester" where
  "clearBeacons w = w\<lparr>beaconsReceived := {}, beaconTimings := Map.empty\<rparr>"

text \<open>
  The entry for a command that could not be sent has only the fields \<^verbatim>\<open>testName\<close>,
  \<^verbatim>\<open>command\<close>, \<^verbatim>\<open>passed\<close> and \<^verbatim>\<open>error\<close>; its other fields are given the values an
  absent field reads as (0 for the duration).
\<close>

definition sendFailedResult :: "string \<Rightarrow> string \<Rightarrow> test_result" where
  "sendFailedResult name cmd =
     \<lparr>passed = False, duration = 0, error = Some FailedToSendEcp, playbackStarted = False,
      contentType = None, beaconsFound = [], testName = name, command = cmd,
      expectedBeacons = [], timings = Map.empty, detectedType = None\<rparr>"

definition waitedResult :: "string \<Rightarrow> string \<Rightarrow> string list \<Rightarrow> tester \<Rightarrow> wait_result \<Rightarrow> test_result" where
  "waitedResult name cmd required w r =
     \<lparr>passed = passed r, duration = duration r, error = error r,
      playbackStarted = playbackStarted r, contentType = contentType r,
      beaconsFound = beaconsFound r, testName = name, command = cmd,
      expectedBeacons = required, timings = beaconTimings w,
      detectedType = detectedContentType w\<rparr>"

definition runDeepLinkTest ::
  "string \<Rightarrow> string \<Rightarrow> event list \<Rightarrow> tester \<Rightarrow> (test_result \<times> tester \<times> event list) option" where
  "runDeepLinkTest name cmd es w =
     (let required = requiredBeacons cmd w;
          params = [(''contentId'', contentId w), (''mediaType'', mediaType w)]
      in do {
           (commandSent, w2, es2) \<leftarrow> sendEcpCommand cmd params es (clearBeacons w);
           if \<not> commandSent then
             (let result = sendFailedResult name cmd
              in Some (result, w2\<lparr>testResults := testResults w2 @ [result]\<rparr>, es2))
           else do {
             (r, w3, es3) \<leftarrow> waitForBeaconsWithSmartDetection required (waitTime w2) es2 w2;
             let testResult = waitedResult name cmd required w3 r;
             Some (testResult, w3\<lparr>testResults := testResults w3 @ [testResult]\<rparr>, es3)
           }
         })"

text \<open>
  Step 1 of \<^verbatim>\<open>runInputTest\<close> for an app that is not signed in; \<open>False\<close> is the early
  \<^verbatim>\<open>return\<close> that skips the input test.
\<close>

definition ensureAppRunning :: "event list \<Rightarrow> tester \<Rightarrow> (bool \<times> tester \<times> event list) option" where
  "ensureAppRunning es w =
     do {
       (_, w1, es1) \<leftarrow> sendEcpKeypress ''Home'' es w;
       (w2, es2) \<leftarrow> sleep (Num 2000) es1 w1;
       (normalLaunchSuccess, w3, es3) \<leftarrow> sendEcpCommand ''launch'' [] es2 (clearBeacons w2);
       if \<not> normalLaunchSuccess then Some (False, w3, es3)
       else do {
         (launchResult, w4, es4) \<leftarrow>
           waitForBeacons [''AppLaunchComplete''] (min (waitTime w3) 30000) es3 w3;
         Some (passed launchResult, w4, es4)
       }
     }"

definition runInputTest :: "event list \<Rightarrow> tester \<Rightarrow> (tester \<times> event list) option" where
  "runInputTest es w =
     do {
       (running, w1, es1) \<leftarrow> (if \<not> isSignedIn w then ensureAppRunning es w
                                else Some (True, w, es));
       if \<not> running then Some (w1, es1)
       else do {
         (w2, es2) \<leftarrow> sleep (Num 2000) es1 w1;
         (_, w3, es3) \<leftarrow> runDeepLinkTest ''Deep Link Input Test'' ''input'' es2 w2;
         Some (w3, es3)
       }
     }"

definition runLaunchPhase :: "event list \<Rightarrow> tester \<Rightarrow> (bool \<times> tester \<times> event list) option" where
  "runLaunchPhase es w =
     do {
       (launchResult, w1, es1) \<leftarrow> runDeepLinkTest ''Deep Link Launch Test'' ''launch'' es w;
       if \<not> passed launchResult \<and> error launchResult = Some FailedToSendEcp
       then Some (False, w1, es1)
       else do {
         (w2, es2) \<leftarrow> sleep (Num 3000) es1 w1;
         Some (True, w2, es2)
       }
     }"

text \<open>
  \<^verbatim>\<open>runDeepLinkTests\<close>; \<open>runLaunchPhase\<close> is its block for test 1, \<open>False\<close> being the
  \<^verbatim>\<open>return\<close> after a launch command that could not be sent.
\<close>

definition runDeepLinkTests :: "event list \<Rightarrow> tester \<Rightarrow> (tester \<times> event list) option" where
  "runDeepLinkTests es w =
     do {
       (w1, es1) \<leftarrow> sleep (Num 3000) es w;
       (continue, w2, es2) \<leftarrow> (if \<not> inputOnly w1 then runLaunchPhase es1 w1
                                 else Some (True, w1, es1));
       if continue \<and> \<not> launchOnly w2 then runInputTest es2 w2 else Some (w2, es2)
     }"


section \<open>The script runner (lib/rasp-runner)\<close>

text \<open>
  The runner's requests and timers are suspensions of the same program, so its
  functions pass the tester and the events along. A result \<open>Inl\<close> is a thrown error.
\<close>

definition loadScript :: "loaded \<Rightarrow> exn + yaml \<times> yaml list" where
  "loadScript file =
     (case file of
        NotFound \<Rightarrow> Inl ScriptNotFound
      | Unparsable \<Rightarrow> Inl (ScriptParseFailed ParseError)
      | Parsed YNull \<Rightarrow> Inl (ScriptParseFailed TypeError)
      | Parsed scr \<Rightarrow>
          (case property scr ''steps'' of
             Some (YSeq steps) \<Rightarrow> Inr (orElse (property scr ''params'') (YMap []), steps)
           | _ \<Rightarrow> Inl (ScriptParseFailed MissingStepsArray)))"

text \<open>
  \<^verbatim>\<open>channels[channelId] || channelId\<close>, for \<^verbatim>\<open>channels\<close> an object; a channel id that is
  not a string is looked up under its string form, which is taken not to be a key of
  the mapping.
\<close>

definition launchChannel ::
  "yaml \<Rightarrow> yaml \<Rightarrow> event list \<Rightarrow> tester \<Rightarrow> ((exn + unit) \<times> tester \<times> event list) option" where
  "launchChannel params channelId es w =
     (let channels = orElse (property params ''channels'') (YMap []);
          actualChannelId =
            orElse (case channelId of YStr s \<Rightarrow> property channels s | _ \<Rightarrow> None) channelId
      in do {
           (ok, w1, es1) \<leftarrow> post (EcpLaunchChannel actualChannelId) es w;
           Some (if ok then Inr () else Inl RequestFailed, w1, es1)
         })"

definition keyMappings :: "(string \<times> string) list" where
  "keyMappings =
     [(''ok'', ''Select''), (''up'', ''Up''), (''down'', ''Down''), (''left'', ''Left''),
      (''right'', ''Right''), (''home'', ''Home''), (''back'', ''Back''),
      (''replay'', ''InstantReplay''), (''info'', ''Info''), (''backspace'', ''Backspace''),
      (''search'', ''Search''), (''enter'', ''Enter'')]"

text \<open>
  \<^verbatim>\<open>keyMappings[key.toLowerCase()] || key\<close>, for the table's own keys (the names
  \<^verbatim>\<open>constructor\<close> and \<^verbatim>\<open>__proto__\<close>, which every object literal inherits, are left out).
\<close>

definition pressKey ::
  "yaml \<Rightarrow> event list \<Rightarrow> tester \<Rightarrow> ((exn + unit) \<times> tester \<times> event list) option" where
  "pressKey key es w =
     (case key of
        YStr k \<Rightarrow>
          (let actualKey = (case map_of keyMappings (toLowerCase k) of
                              Some m \<Rightarrow> m | None \<Rightarrow> k)
           in do {
                (ok, w1, es1) \<leftarrow> post (EcpKeypress actualKey) es w;
                Some (if ok then Inr () else Inl RequestFailed, w1, es1)
              })
      | _ \<Rightarrow> Some (Inl TypeError, w, es))"

text \<open>The loop of \<^verbatim>\<open>enterText\<close>: one request per character, then a timer of 50 ms.\<close>

fun sendCharacters ::
  "string \<Rightarrow> event list \<Rightarrow> tester \<Rightarrow> ((exn + unit) \<times> tester \<times> event list) option" where
  "sendCharacters [] es w = Some (Inr (), w, es)"
| "sendCharacters (c # cs) es w =
     (case post (EcpLit c) es w of
        None \<Rightarrow> None
      | Some (ok, w1, es1) \<Rightarrow>
          if \<not> ok then Some (Inl RequestFailed, w1, es1)
          else (case sleep (Num 50) es1 w1 of
                  None \<Rightarrow> None
                | Some (w2, es2) \<Rightarrow> sendCharacters cs es2 w2))"

text \<open>
  The name of the environment variable for a placeholder:
  \<^verbatim>\<open>text.replace('script-', '').toUpperCase()\<close>, on a text that starts with
  \<^verbatim>\<open>script-\<close>, is the upper-cased rest.
\<close>

definition envVarName :: "string \<Rightarrow> string" where
  "envVarName text =
     (let placeholder = toUpperCase (drop (length ''script-'') text)
      in if placeholder = ''LOGIN'' then ''RASP_LOGIN''
         else if placeholder = ''PASSWORD'' then ''RASP_PASSWORD''
         else ''RASP_'' @ placeholder)"

definition enterText ::
  "yaml \<Rightarrow> event list \<Rightarrow> tester \<Rightarrow> ((exn + unit) \<times> tester \<times> event list) option" where
  "enterText text es w =
     (case text of
        YStr t \<Rightarrow>
          if startsWith t ''script-'' then
            (case environ w (envVarName t) of
               None \<Rightarrow> Some (Inl (EnvironmentVariableNotSet (envVarName t)), w, es)
             | Some actualText \<Rightarrow>
                 if actualText = []
                 then Some (Inl (EnvironmentVariableNotSet (envVarName t)), w, es)
                 else sendCharacters actualText es w)
          else sendCharacters t es w
      | _ \<Rightarrow> Some (Inl TypeError, w, es))"

text \<open>
  \<^verbatim>\<open>executeStep\<close>: the first key of the step decides, and an error thrown inside the
  \<^verbatim>\<open>switch\<close> is wrapped. Reading the keys of \<^verbatim>\<open>null\<close> throws before the \<^verbatim>\<open>try\<close>.
\<close>

definition executeStep ::
  "yaml \<Rightarrow> yaml \<Rightarrow> event list \<Rightarrow> tester \<Rightarrow> ((exn + unit) \<times> tester \<times> event list) option" where
  "executeStep params step es w =
     (case step of
        YMap ((stepType, stepValue) # _) \<Rightarrow>
          (if stepType \<in> set [''launch'', ''press'', ''text'', ''pause''] then
             do {
               (r, w1, es1) \<leftarrow>
                 (if stepType = ''launch'' then launchChannel params stepValue es w
                  else if stepType = ''press'' then pressKey stepValue es w
                  else if stepType = ''text'' then enterText stepValue es w
                  else do {
                    (w1, es1) \<leftarrow> sleep (jsMul (parseInt stepValue) (Num 1000)) es w;
                    Some (Inr (), w1, es1)
                  });
               Some (case r of Inl x \<Rightarrow> Inl (StepFailed stepType x) | Inr u \<Rightarrow> Inr u, w1, es1)
             }
           else Some (Inr (), w, es))
      | YNull \<Rightarrow> Some (Inl TypeError, w, es)
      | _ \<Rightarrow> Some (Inr (), w, es))"

text \<open>
  The loop of \<^verbatim>\<open>execute\<close>. Describing a \<^verbatim>\<open>null\<close> step for the console reads its keys
  and throws. The timer between steps is \<^verbatim>\<open>(params.default_keypress_wait || 1) * 1000\<close>.
\<close>

fun runSteps ::
  "yaml \<Rightarrow> yaml list \<Rightarrow> event list \<Rightarrow> tester \<Rightarrow> ((exn + unit) \<times> tester \<times> event list) option" where
  "runSteps params [] es w = Some (Inr (), w, es)"
| "runSteps params (step # rest) es w =
     (if step = YNull then Some (Inl TypeError, w, es)
      else
        (case executeStep params step es w of
           None \<Rightarrow> None
         | Some (Inl x, w1, es1) \<Rightarrow> Some (Inl x, w1, es1)
         | Some (Inr _, w1, es1) \<Rightarrow>
             if rest = [] then runSteps params rest es1 w1
             else
               (case sleep (jsMul (toNumber (orElse (property params ''default_keypress_wait'')
                                      (YNum 1))) (Num 1000)) es1 w1 of
                  None \<Rightarrow> None
                | Some (w2, es2) \<Rightarrow> runSteps params rest es2 w2)))"

text \<open>
  \<^verbatim>\<open>execute\<close>. Reading the file is a suspension too.
\<close>

fun execute :: "event list \<Rightarrow> tester \<Rightarrow> ((exn + unit) \<times> tester \<times> event list) option" where
  "execute [] w = None"
| "execute (e # es) w =
     (case loadScript (scriptFile w) of
        Inl x \<Rightarrow> Some (Inl x, resume e w, es)
      | Inr (params, steps) \<Rightarrow> runSteps params steps es (resume e w))"


section \<open>The run (lib/tester, continued)\<close>

text \<open>
  \<^verbatim>\<open>connectTelnet\<close>: the socket connects, or it fails or takes more than 10 s (one error
  here). No data arrives before the connection is made.
\<close>

fun connectTelnet :: "event list \<Rightarrow> tester \<Rightarrow> ((exn + unit) \<times> tester \<times> event list) option" where
  "connectTelnet [] w = None"
| "connectTelnet (e # es) w =
     Some (if succeeded e then Inr () else Inl TelnetConnectionFailed,
           w\<lparr>now := resumedAt e\<rparr>, es)"

definition handleSignIn :: "event list \<Rightarrow> tester \<Rightarrow> ((exn + unit) \<times> tester \<times> event list) option" where
  "handleSignIn es w =
     (let startTime = now w in
      if script w \<noteq> None \<and> script w \<noteq> Some [] then
        do {
          (r, w1, es1) \<leftarrow> execute es w;
          (case r of
             Inl x \<Rightarrow> Some (Inl x, w1, es1)
           | Inr _ \<Rightarrow>
               do {
                 (w2, es2) \<leftarrow> sleep (Num 3000) es1
                                (w1\<lparr>signInDuration := Some (now w1 - startTime)\<rparr>);
                 Some (Inr (), w2, es2)
               })
        }
      else Some (Inl SignInRequiresScript, w, es))"

text \<open>
  The object \<^verbatim>\<open>formatResults\<close> returns, without \<^verbatim>\<open>testId\<close>, \<^verbatim>\<open>timestamp\<close> and
  \<^verbatim>\<open>configuration\<close>. Each test comes with its \<^verbatim>\<open>recentTelnetLogs\<close>, if it has them.
\<close>

record run_result =
  success :: bool
  totalTests :: nat
  passedTests :: nat
  failedTests :: nat
  tests :: "(test_result \<times> string list option) list"
  signInTime :: "int option"

definition formatResults :: "bool option \<Rightarrow> tester \<Rightarrow> run_result" where
  "formatResults overrideSuccess w =
     (let passedCount = length (filter passed (testResults w));
          total = length (testResults w)
      in \<lparr>success = (case overrideSuccess of
                       Some b \<Rightarrow> b
                     | None \<Rightarrow> passedCount = total \<and> total > 0),
          totalTests = total,
          passedTests = passedCount,
          failedTests = total - passedCount,
          tests = map (\<lambda>t. if \<not> passed t \<and> length (telnetLogBuffer w) > 0
                           then (t, Some (drop (length (telnetLogBuffer w) - 10)
                                            (telnetLogBuffer w)))
                           else (t, None)) (testResults w),
          signInTime = signInDuration w\<rparr>)"

text \<open>
  The body of the \<^verbatim>\<open>try\<close> block of \<^verbatim>\<open>runTests\<close>.
\<close>

definition runTestsBody :: "event list \<Rightarrow> tester \<Rightarrow> ((exn + unit) \<times> tester \<times> event list) option" where
  "runTestsBody es w =
     do {
       (c, w1, es1) \<leftarrow> connectTelnet es w;
       (case c of
          Inl x \<Rightarrow> Some (Inl x, w1, es1)
        | Inr _ \<Rightarrow>
            do {
              (s, w2, es2) \<leftarrow> (if isSignedIn w1 then handleSignIn es1 w1
                                else Some (Inr (), w1, es1));
              (case s of
                 Inl x \<Rightarrow> Some (Inl x, w2, es2)
               | Inr _ \<Rightarrow>
                   do {
                     (w3, es3) \<leftarrow> runDeepLinkTests es2 w2;
                     Some (Inr (), w3, es3)
                   })
            })
     }"

text \<open>
  \<^verbatim>\<open>runTests\<close>: a thrown error is caught and answered with \<^verbatim>\<open>formatResults(false)\<close>.
  Closing the socket in \<^verbatim>\<open>finally\<close> changes nothing that is modelled.
\<close>

definition runTests :: "event list \<Rightarrow> tester \<Rightarrow> (run_result \<times> tester \<times> event list) option" where
  "runTests es w =
     do {
       (r, w1, es1) \<leftarrow> runTestsBody es w;
       Some (case r of
               Inl _ \<Rightarrow> formatResults (Some False) w1
             | Inr _ \<Rightarrow> formatResults None w1, w1, es1)
     }"


subsection \<open>The constructor\<close>

text \<open>
  \<^verbatim>\<open>new RokuDeepLinkTester(options)\<close> for options \<^verbatim>\<open>app\<close>, \<^verbatim>\<open>content\<close>, \<^verbatim>\<open>type\<close> and
  \<^verbatim>\<open>wait\<close> (in seconds), the other options unset, on a clock that reads \<open>t\<close>, with an
  empty process environment and no script file.
\<close>

definition newTester :: "string \<Rightarrow> string \<Rightarrow> string \<Rightarrow> int \<Rightarrow> int \<Rightarrow> tester" where
  "newTester app content mtype wait t =
     \<lparr>appId = app, contentId = content, mediaType = mtype, waitTime = wait * 1000,
      isSignedIn = False, inputOnly = False, launchOnly = False, expectBeacon = None,
      script = None, beaconsReceived = {}, beaconTimings = Map.empty, detectedContentType = None,
      testResults = [], signInDuration = None, telnetLogBuffer = [],
      now = t, effects = [], environ = Map.empty, scriptFile = NotFound\<rparr>"


section \<open>The script validator (lib/rasp-validator)\<close>

text \<open>
  The error messages, by their template; the number is \<^verbatim>\<open>index + 1\<close>.
  \<open>FailedToParse\<close> is \<^verbatim>\<open>`Failed to parse YAML: ${error.message}`\<close>, pushed for any error
  thrown in \<^verbatim>\<open>validate\<close> other than a missing file.
\<close>

datatype message =
    EmptyScript
  | MissingStepsSection
  | StepsNotArray
  | ScriptFileNotFound
  | FailedToParse exn
  | RaspVersionNotNumber
  | DefaultWaitNotNumber
  | ChannelsNotObject
  | StepNotObject nat
  | StepNotOneAction nat
  | UnknownStepType nat string
  | LaunchNeedsString nat
  | PressNeedsString nat
  | InvalidKey nat string
  | TextNeedsString nat
  | PauseNeedsNumber nat

definition validStepTypes :: "string list" where
  "validStepTypes = [''launch'', ''press'', ''text'', ''pause'']"

definition validKeys :: "string list" where
  "validKeys =
     [''ok'', ''up'', ''down'', ''left'', ''right'', ''home'', ''back'', ''replay'', ''info'',
      ''backspace'', ''search'', ''enter'', ''select'', ''play'', ''rev'', ''fwd'']"

definition isString :: "yaml \<Rightarrow> bool" where
  "isString v = (case v of YStr _ \<Rightarrow> True | _ \<Rightarrow> False)"

definition isNumber :: "yaml \<Rightarrow> bool" where
  "isNumber v = (case v of YNum _ \<Rightarrow> True | _ \<Rightarrow> False)"

text \<open>\<^verbatim>\<open>typeof v === 'object'\<close>, which holds for \<^verbatim>\<open>null\<close> as well.\<close>

definition isObject :: "yaml \<Rightarrow> bool" where
  "isObject v = (case v of YNull \<Rightarrow> True | YSeq _ \<Rightarrow> True | YMap _ \<Rightarrow> True | _ \<Rightarrow> False)"

text \<open>\<^verbatim>\<open>stepValue.match(/^[A-Za-z0-9]$/)\<close>\<close>

definition isSingleAlphanumeric :: "string \<Rightarrow> bool" where
  "isSingleAlphanumeric s =
     (case s of
        [c] \<Rightarrow> c \<in> set ''ABCDEFGHIJKLMNOPQRSTUVWXYZabcdefghijklmnopqrstuvwxyz0123456789''
      | _ \<Rightarrow> False)"

text \<open>\<^verbatim>\<open>params[key] && !isType(params[key])\<close>\<close>

definition wrongType :: "yaml \<Rightarrow> string \<Rightarrow> (yaml \<Rightarrow> bool) \<Rightarrow> bool" where
  "wrongType params key isType =
     (case property params key of None \<Rightarrow> False | Some v \<Rightarrow> truthy v \<and> \<not> isType v)"

definition validateParams :: "yaml \<Rightarrow> message list \<Rightarrow> message list" where
  "validateParams params errors =
     (let e1 = (if wrongType params ''rasp_version'' isNumber
                then errors @ [RaspVersionNotNumber] else errors);
          e2 = (if wrongType params ''default_keypress_wait'' isNumber
                then e1 @ [DefaultWaitNotNumber] else e1);
          e3 = (if wrongType params ''channels'' isObject
                then e2 @ [ChannelsNotObject] else e2)
      in e3)"

text \<open>
  \<^verbatim>\<open>stepValue.length * 0.05\<close> for the value of a text step: the length of a string or
  an array, the property \<^verbatim>\<open>length\<close> of an object, \<^verbatim>\<open>undefined\<close> (and so \<^verbatim>\<open>NaN\<close>) for
  a boolean or a number; \<open>None\<close> is the \<^verbatim>\<open>TypeError\<close> of reading a property of \<^verbatim>\<open>null\<close>.
\<close>

definition textDuration :: "yaml \<Rightarrow> jsnum option" where
  "textDuration stepValue =
     (case stepValue of
        YNull \<Rightarrow> None
      | YStr t \<Rightarrow> Some (Num (of_nat (length t) * (5 / 100)))
      | YSeq xs \<Rightarrow> Some (Num (of_nat (length xs) * (5 / 100)))
      | YMap kvs \<Rightarrow>
          Some (case map_of kvs ''length'' of
                  None \<Rightarrow> NaN
                | Some v \<Rightarrow> jsMul (toNumber v) (Num (5 / 100)))
      | _ \<Rightarrow> Some NaN)"

text \<open>
  The part of the callback of \<^verbatim>\<open>steps.forEach\<close> that follows the early returns, for
  the only key of the step and its value: the \<^verbatim>\<open>switch\<close> and the wait between steps.
  The result is the error thrown, if any, and the array \<^verbatim>\<open>errors\<close> and
  \<^verbatim>\<open>totalDuration\<close> as the callback leaves them. The sums are exact, where JavaScript
  rounds to binary floating point.
\<close>

definition validateAction ::
  "nat \<Rightarrow> nat \<Rightarrow> jsnum \<Rightarrow> string \<Rightarrow> yaml \<Rightarrow> message list \<Rightarrow> jsnum
     \<Rightarrow> exn option \<times> message list \<times> jsnum" where
  "validateAction index n defaultWait stepType stepValue errors totalDuration =
     (let between = (\<lambda>total. if index + 1 < n then jsAdd total defaultWait else total)
      in if stepType = ''launch'' then
           (None,
            (if \<not> truthy stepValue \<or> \<not> isString stepValue
             then errors @ [LaunchNeedsString (index + 1)] else errors),
            between (jsAdd totalDuration (Num 3)))
         else if stepType = ''press'' then
           (None,
            (case stepValue of
               YStr k \<Rightarrow>
                 if k = [] then errors @ [PressNeedsString (index + 1)]
                 else if toLowerCase k \<notin> set validKeys \<and> \<not> isSingleAlphanumeric k
                 then errors @ [InvalidKey (index + 1) k]
                 else errors
             | _ \<Rightarrow> errors @ [PressNeedsString (index + 1)]),
            between (jsAdd totalDuration (Num (1 / 10))))
         else if stepType = ''text'' then
           (let errors' = (if \<not> truthy stepValue \<or> \<not> isString stepValue
                           then errors @ [TextNeedsString (index + 1)] else errors)
            in case textDuration stepValue of
                 None \<Rightarrow> (Some TypeError, errors', totalDuration)
               | Some d \<Rightarrow> (None, errors', between (jsAdd totalDuration d)))
         else
           (case parseInt stepValue of
              NaN \<Rightarrow> (None, errors @ [PauseNeedsNumber (index + 1)], between totalDuration)
            | Num pauseSeconds \<Rightarrow>
                if pauseSeconds < 0
                then (None, errors @ [PauseNeedsNumber (index + 1)], between totalDuration)
                else (None, errors, between (jsAdd totalDuration (Num pauseSeconds)))))"

text \<open>
  The callback of \<^verbatim>\<open>steps.forEach\<close>, for the step at \<open>index\<close> of \<open>n\<close> steps. The keys of
  an array are its indices, so the only key of an array of one element is \<^verbatim>\<open>'0'\<close>.
\<close>

definition validateStep ::
  "nat \<Rightarrow> nat \<Rightarrow> jsnum \<Rightarrow> yaml \<Rightarrow> message list \<Rightarrow> jsnum \<Rightarrow> exn option \<times> message list \<times> jsnum" where
  "validateStep index n defaultWait step errors totalDuration =
     (let stepKeys = (case step of
                        YMap kvs \<Rightarrow> Some (length kvs)
                      | YSeq xs \<Rightarrow> Some (length xs)
                      | _ \<Rightarrow> None);
          (stepType, stepValue) = (case step of
                                     YMap (kv # _) \<Rightarrow> kv
                                   | YSeq (x # _) \<Rightarrow> (''0'', x)
                                   | _ \<Rightarrow> ([], YNull))
      in if stepKeys = None
         then (None, errors @ [StepNotObject (index + 1)], totalDuration)
         else if stepKeys \<noteq> Some 1
         then (None, errors @ [StepNotOneAction (index + 1)], totalDuration)
         else if stepType \<notin> set validStepTypes
         then (None, errors @ [UnknownStepType (index + 1) stepType], totalDuration)
         else validateAction index n defaultWait stepType stepValue errors totalDuration)"

text \<open>\<^verbatim>\<open>forEach\<close> from \<open>index\<close> on; a thrown error ends it.\<close>

fun forEachStep ::
  "nat \<Rightarrow> nat \<Rightarrow> jsnum \<Rightarrow> yaml list \<Rightarrow> message list \<Rightarrow> jsnum \<Rightarrow> exn option \<times> message list \<times> jsnum" where
  "forEachStep index n defaultWait [] errors totalDuration = (None, errors, totalDuration)"
| "forEachStep index n defaultWait (step # rest) errors totalDuration =
     (case validateStep index n defaultWait step errors totalDuration of
        (Some x, errors', total') \<Rightarrow> (Some x, errors', total')
      | (None, errors', total') \<Rightarrow> forEachStep (index + 1) n defaultWait rest errors' total')"

text \<open>
  \<^verbatim>\<open>params.default_keypress_wait || 1\<close> as the number that \<^verbatim>\<open>+=\<close> adds. For a value
  that is neither falsy nor a number nor \<^verbatim>\<open>true\<close>, \<^verbatim>\<open>+=\<close> concatenates strings; the
  model does not follow that and gives \<^verbatim>\<open>NaN\<close>.
\<close>

definition defaultWaitOf :: "yaml \<Rightarrow> jsnum" where
  "defaultWaitOf params =
     (case orElse (property params ''default_keypress_wait'') (YNum 1) of
        YNum n \<Rightarrow> Num n
      | YBool b \<Rightarrow> Num 1
      | _ \<Rightarrow> NaN)"

text \<open>
  \<^verbatim>\<open>validateSteps(steps, errors, params = {})\<close>: \<open>None\<close> for \<open>params\<close> is \<^verbatim>\<open>undefined\<close>,
  which the default replaces; \<^verbatim>\<open>null\<close> is not replaced, and reading its property
  throws.
\<close>

definition validateSteps ::
  "yaml list \<Rightarrow> message list \<Rightarrow> yaml option \<Rightarrow> exn option \<times> message list \<times> jsnum" where
  "validateSteps steps errors params =
     (if params = Some YNull then (Some TypeError, errors, Num 0)
      else
        (case forEachStep 0 (length steps)
                (defaultWaitOf (case params of None \<Rightarrow> YMap [] | Some p \<Rightarrow> p))
                steps errors (Num 0) of
           (x, errors', totalDuration) \<Rightarrow> (x, errors', jsCeil totalDuration)))"

record validation =
  valid :: bool
  errors :: "message list"
  stepCount :: nat
  estimatedDuration :: jsnum

definition validate :: "loaded \<Rightarrow> validation" where
  "validate file =
     (case file of
        NotFound \<Rightarrow> \<lparr>valid = False, errors = [ScriptFileNotFound], stepCount = 0,
                     estimatedDuration = Num 0\<rparr>
      | Unparsable \<Rightarrow> \<lparr>valid = False, errors = [FailedToParse ParseError], stepCount = 0,
                       estimatedDuration = Num 0\<rparr>
      | Parsed scr \<Rightarrow>
          if \<not> truthy scr
          then \<lparr>valid = False, errors = [EmptyScript], stepCount = 0,
                estimatedDuration = Num 0\<rparr>
          else
            (let e1 = (case property scr ''params'' of
                         None \<Rightarrow> []
                       | Some p \<Rightarrow> if truthy p then validateParams p [] else []);
                 (e2, count, estimate) =
                   (case property scr ''steps'' of
                      None \<Rightarrow> (e1 @ [MissingStepsSection], 0, Num 0)
                    | Some (YSeq steps) \<Rightarrow>
                        (case validateSteps steps e1 (property scr ''params'') of
                           (Some x, e, _) \<Rightarrow> (e @ [FailedToParse x], length steps, Num 0)
                         | (None, e, d) \<Rightarrow> (e, length steps, d))
                    | Some v \<Rightarrow>
                        if truthy v then (e1 @ [StepsNotArray], 0, Num 0)
                        else (e1 @ [MissingStepsSection], 0, Num 0))
             in \<lparr>valid = (e2 = []), errors = e2, stepCount = count,
                  estimatedDuration = estimate\<rparr>))"


section \<open>Properties of the data handler\<close>

lemma length_filter_all: "length (filter P xs) = length xs \<longleftrightarrow> (\<forall>x\<in>set xs. P x)"
proof (induction xs)
  case Nil
  then show ?case by simp
next
  case (Cons x xs)
  have le: "length (filter P xs) \<le> length xs" by simp
  show ?case
  proof (cases "P x")
    case True
    with Cons show ?thesis by simp
  next
    case False
    with le have "length (filter P (x # xs)) \<noteq> length (x # xs)"
      by (simp del: length_filter_le)
    with False show ?thesis by auto
  qed
qed






lemmas onData_defs = onData_def Let_def addBeacon_def addTimedBeacon_def pushLog_def


lemma onData_mono: "beaconsReceived w \<subseteq> beaconsReceived (onData r w)"
  by (auto simp: onData_defs)





lemma fold_onData_mono: "beaconsReceived w \<subseteq> beaconsReceived (fold onData cs w)"
proof (induction cs arbitrary: w)
  case Nil
  then show ?case by simp
next
  case (Cons c cs)
  have "beaconsReceived w \<subseteq> beaconsReceived (onData c w)" by (rule onData_mono)
  also have "\<dots> \<subseteq> beaconsReceived (fold onData cs (onData c w))" by (rule Cons.IH)
  finally show ?case by simp
qed

lemma resume_mono: "beaconsReceived w \<subseteq> beaconsReceived (resume e w)"
  using fold_onData_mono[of w "arrived e"] by (simp add: resume_def)

lemma fresh_resume: "fresh B w b \<Longrightarrow> fresh B (resume e w) b"
  using resume_mono[of w e] by (auto simp: fresh_def)

lemma now_resume [simp]: "now (resume e w) = resumedAt e"
  by (simp add: resume_def)


section \<open>Properties of the waits\<close>

text \<open>Unfolding everything a run on given events goes through.\<close>

lemmas run_defs = waitForBeacons_def waitForBeaconsWithSmartDetection_def checkBeacons_def
  checkBeaconsSmart_def videoCheck_def appLaunchCheck_def getFoundBeacons_def fresh_def
  resume_def onData_defs trim_def isWhiteSpace_def newTester_def BEACON_GRACE_PERIOD_def
  maxLogBuffer_def matchHere_def isDigit_def

lemma afterTicks_Nil [simp]: "afterTicks [] w = w"
  by (simp add: afterTicks_def)

lemma afterTicks_Cons [simp]:
  "afterTicks (e # es) w = afterTicks es (resume e (w\<lparr>effects := effects w @ [Sleep (Num 500)]\<rparr>))"
  by (simp add: afterTicks_def)

lemma allFound_iff: "length (filter P xs) = length xs \<longleftrightarrow> list_all P xs"
  by (simp add: length_filter_all list_all_iff)

lemma filter_all: "list_all P xs \<Longrightarrow> filter P xs = xs"
  by (simp add: list_all_iff)

subsection \<open>Exact mode\<close>

text \<open>Once the grace start holds a time other than 0, a tick leaves it alone.\<close>

lemma checkBeacons_recorded:
  assumes "t \<noteq> 0"
  shows "checkBeacons ex to st B (Some t) w = Inr fa \<Longrightarrow> fa = Some t"
    and "checkBeacons ex to st B (Some t) w = Inl r \<Longrightarrow> passed r \<Longrightarrow>
           now w - t \<ge> 2000 \<and> list_all (fresh B w) ex \<and> duration r = now w - st
           \<and> beaconsFound r = ex"
  using assms
  by (auto simp: checkBeacons_def Let_def BEACON_GRACE_PERIOD_def allFound_iff filter_all
           split: if_splits)

text \<open>The tick that records the grace start does not pass.\<close>

lemma checkBeacons_first:
  shows "checkBeacons ex to st B None w = Inr fa \<Longrightarrow>
           fa = (if list_all (fresh B w) ex then Some (now w) else None)"
    and "now w \<noteq> 0 \<Longrightarrow> checkBeacons ex to st B None w = Inl r \<Longrightarrow> \<not> passed r"
  by (auto simp: checkBeacons_def Let_def BEACON_GRACE_PERIOD_def allFound_iff filter_all
           split: if_splits)

lemma pollBeacons_recorded:
  assumes "t \<noteq> 0"
  shows "pollBeacons ex to st B (Some t) es w = Some (r, w', es') \<Longrightarrow> passed r \<Longrightarrow>
     \<exists>k\<le>length es. es' = drop k es \<and> w' = afterTicks (take k es) w
        \<and> now w' - t \<ge> 2000 \<and> list_all (fresh B w') ex
        \<and> duration r = now w' - st \<and> beaconsFound r = ex"
proof (induction es arbitrary: w)
  case Nil
  then show ?case
    using checkBeacons_recorded(2)[OF assms, of ex to st B w]
    by (auto split: sum.splits)
next
  case (Cons e es)
  show ?case
  proof (cases "checkBeacons ex to st B (Some t) w")
    case (Inl r0)
    with Cons.prems have "r0 = r" "w' = w" "es' = e # es" by auto
    with Inl Cons.prems checkBeacons_recorded(2)[OF assms, of ex to st B w r]
    have "es' = drop 0 (e # es) \<and> w' = afterTicks (take 0 (e # es)) w
        \<and> now w' - t \<ge> 2000 \<and> list_all (fresh B w') ex
        \<and> duration r = now w' - st \<and> beaconsFound r = ex" by simp
    then show ?thesis by blast
  next
    case (Inr fa)
    with checkBeacons_recorded(1)[OF assms] have fa: "fa = Some t" by blast
    let ?w1 = "resume e (w\<lparr>effects := effects w @ [Sleep (Num 500)]\<rparr>)"
    from Inr fa Cons.prems have "pollBeacons ex to st B (Some t) es ?w1 = Some (r, w', es')"
      by simp
    from Cons.IH[OF this Cons.prems(2)] obtain k where
      k: "k \<le> length es" "es' = drop k es" "w' = afterTicks (take k es) ?w1"
         "now w' - t \<ge> 2000" "list_all (fresh B w') ex"
         "duration r = now w' - st" "beaconsFound r = ex" by blast
    then have "Suc k \<le> length (e # es) \<and> es' = drop (Suc k) (e # es)
        \<and> w' = afterTicks (take (Suc k) (e # es)) w
        \<and> now w' - t \<ge> 2000 \<and> list_all (fresh B w') ex
        \<and> duration r = now w' - st \<and> beaconsFound r = ex" by simp
    then show ?thesis by blast
  qed
qed

lemma pollBeacons_grace:
  "pollBeacons ex to st B None es w = Some (r, w', es') \<Longrightarrow> passed r \<Longrightarrow>
   now w \<noteq> 0 \<Longrightarrow> \<forall>e\<in>set es. resumedAt e \<noteq> 0 \<Longrightarrow>
     \<exists>j k. j \<le> k \<and> k \<le> length es \<and> es' = drop k es \<and> w' = afterTicks (take k es) w
        \<and> list_all (fresh B (afterTicks (take j es) w)) ex
        \<and> (\<forall>i<j. \<not> list_all (fresh B (afterTicks (take i es) w)) ex)
        \<and> now w' - now (afterTicks (take j es) w) \<ge> 2000
        \<and> list_all (fresh B w') ex
        \<and> duration r = now w' - st \<and> beaconsFound r = ex"
proof (induction es arbitrary: w)
  case Nil
  then show ?case
    using checkBeacons_first(2)[of w ex to st B]
    by (auto split: sum.splits)
next
  case (Cons e es)
  let ?w1 = "resume e (w\<lparr>effects := effects w @ [Sleep (Num 500)]\<rparr>)"
  show ?case
  proof (cases "checkBeacons ex to st B None w")
    case (Inl r0)
    with Cons.prems have "r0 = r" by auto
    with Inl Cons.prems(2,3) checkBeacons_first(2)[of w ex to st B r] show ?thesis by simp
  next
    case (Inr fa)
    from checkBeacons_first(1)[OF Inr]
    have fa: "fa = (if list_all (fresh B w) ex then Some (now w) else None)" .
    from Inr Cons.prems(1) have run: "pollBeacons ex to st B fa es ?w1 = Some (r, w', es')"
      by simp
    show ?thesis
    proof (cases "list_all (fresh B w) ex")
      case True
      with fa run have "pollBeacons ex to st B (Some (now w)) es ?w1 = Some (r, w', es')"
        by simp
      from pollBeacons_recorded[OF Cons.prems(3) this Cons.prems(2)] obtain k where
        k: "k \<le> length es" "es' = drop k es" "w' = afterTicks (take k es) ?w1"
           "now w' - now w \<ge> 2000" "list_all (fresh B w') ex"
           "duration r = now w' - st" "beaconsFound r = ex" by blast
      with True have "0 \<le> Suc k \<and> Suc k \<le> length (e # es) \<and> es' = drop (Suc k) (e # es)
        \<and> w' = afterTicks (take (Suc k) (e # es)) w
        \<and> list_all (fresh B (afterTicks (take 0 (e # es)) w)) ex
        \<and> (\<forall>i<0::nat. \<not> list_all (fresh B (afterTicks (take i (e # es)) w)) ex)
        \<and> now w' - now (afterTicks (take 0 (e # es)) w) \<ge> 2000
        \<and> list_all (fresh B w') ex
        \<and> duration r = now w' - st \<and> beaconsFound r = ex" by simp
      then show ?thesis by blast
    next
      case False
      with fa run have run': "pollBeacons ex to st B None es ?w1 = Some (r, w', es')" by simp
      have n1: "now ?w1 \<noteq> 0" using Cons.prems(4) by simp
      have n2: "\<forall>e\<in>set es. resumedAt e \<noteq> 0" using Cons.prems(4) by simp
      from Cons.IH[OF run' Cons.prems(2) n1 n2] obtain j k where
        jk: "j \<le> k" "k \<le> length es" "es' = drop k es" "w' = afterTicks (take k es) ?w1"
            "list_all (fresh B (afterTicks (take j es) ?w1)) ex"
            "\<forall>i<j. \<not> list_all (fresh B (afterTicks (take i es) ?w1)) ex"
            "now w' - now (afterTicks (take j es) ?w1) \<ge> 2000"
            "list_all (fresh B w') ex"
            "duration r = now w' - st" "beaconsFound r = ex" by blast
      have "\<forall>i<Suc j. \<not> list_all (fresh B (afterTicks (take i (e # es)) w)) ex"
      proof (intro allI impI)
        fix i assume "i < Suc j"
        show "\<not> list_all (fresh B (afterTicks (take i (e # es)) w)) ex"
        proof (cases i)
          case 0
          with False show ?thesis by simp
        next
          case (Suc i')
          with \<open>i < Suc j\<close> jk(6) show ?thesis by simp
        qed
      qed
      with jk have "Suc j \<le> Suc k \<and> Suc k \<le> length (e # es) \<and> es' = drop (Suc k) (e # es)
        \<and> w' = afterTicks (take (Suc k) (e # es)) w
        \<and> list_all (fresh B (afterTicks (take (Suc j) (e # es)) w)) ex
        \<and> (\<forall>i<Suc j. \<not> list_all (fresh B (afterTicks (take i (e # es)) w)) ex)
        \<and> now w' - now (afterTicks (take (Suc j) (e # es)) w) \<ge> 2000
        \<and> list_all (fresh B w') ex
        \<and> duration r = now w' - st \<and> beaconsFound r = ex" by simp
      then show ?thesis by blast
    qed
  qed
qed

text \<open>A wait that passes ends with every required category fresh.\<close>

lemma pollBeacons_passed:
  "pollBeacons ex to st B fa es w = Some (r, w', es') \<Longrightarrow> passed r \<Longrightarrow>
   list_all (fresh B w') ex"
proof (induction es arbitrary: w fa)
  case Nil
  then show ?case
    by (auto simp: checkBeacons_def Let_def allFound_iff split: sum.splits if_splits)
next
  case (Cons e es)
  show ?case
  proof (cases "checkBeacons ex to st B fa w")
    case (Inl r0)
    with Cons.prems show ?thesis
      by (auto simp: checkBeacons_def Let_def allFound_iff split: if_splits)
  next
    case (Inr fa')
    with Cons.prems(1)
    have "pollBeacons ex to st B fa' es (resume e (w\<lparr>effects := effects w @ [Sleep (Num 500)]\<rparr>))
            = Some (r, w', es')"
      by simp
    from Cons.IH[OF this Cons.prems(2)] show ?thesis .
  qed
qed

text \<open>A wait returns at the latest on the first tick at or after its deadline.\<close>

lemma checkBeacons_deadline:
  "to \<le> now w - st \<Longrightarrow> \<exists>r. checkBeacons ex to st B fa w = Inl r"
  by (simp add: checkBeacons_def Let_def)

lemma pollBeacons_returns:
  "to \<le> now w - st \<or> (\<exists>e\<in>set es. to \<le> resumedAt e - st) \<Longrightarrow>
   pollBeacons ex to st B fa es w \<noteq> None"
proof (induction es arbitrary: w fa)
  case Nil
  then have "to \<le> now w - st" by simp
  from checkBeacons_deadline[OF this] obtain r where "checkBeacons ex to st B fa w = Inl r"
    by blast
  then show ?case by simp
next
  case (Cons e es)
  show ?case
  proof (cases "checkBeacons ex to st B fa w")
    case (Inl r)
    then show ?thesis by simp
  next
    case (Inr fa')
    with checkBeacons_deadline[of to w st ex B fa] have "\<not> to \<le> now w - st" by auto
    with Cons.prems have "to \<le> resumedAt e - st \<or> (\<exists>x\<in>set es. to \<le> resumedAt x - st)"
      by auto
    then have "to \<le> now (resume e (w\<lparr>effects := effects w @ [Sleep (Num 500)]\<rparr>)) - st
                 \<or> (\<exists>x\<in>set es. to \<le> resumedAt x - st)" by simp
    from Cons.IH[OF this] Inr show ?thesis by simp
  qed
qed

text \<open>
  Once every required category is fresh, the wait passes on the first tick that comes
  2000 ms or more after the grace start, if no earlier tick has reached the deadline.
\<close>

lemma fresh_effects [simp]: "fresh B (w\<lparr>effects := x\<rparr>) = fresh B w"
  by (rule ext) (simp add: fresh_def)

lemma list_all_fresh_tick:
  "list_all (fresh B w) ex \<Longrightarrow>
   list_all (fresh B (resume e (w\<lparr>effects := effects w @ [Sleep (Num 500)]\<rparr>))) ex"
  using fresh_resume[of B "w\<lparr>effects := effects w @ [Sleep (Num 500)]\<rparr>" _ e]
  by (auto simp: list_all_iff)

lemma checkBeacons_cases:
  shows "list_all (fresh B w) ex \<Longrightarrow> t \<noteq> 0 \<Longrightarrow> now w - t \<ge> 2000 \<Longrightarrow>
           \<exists>r. checkBeacons ex to st B (Some t) w = Inl r \<and> passed r \<and> duration r = now w - st"
    and "list_all (fresh B w) ex \<Longrightarrow> t \<noteq> 0 \<Longrightarrow> \<not> now w - t \<ge> 2000 \<Longrightarrow> now w - st < to \<Longrightarrow>
           checkBeacons ex to st B (Some t) w = Inr (Some t)"
    and "\<not> list_all (fresh B w) ex \<Longrightarrow> now w - st < to \<Longrightarrow>
           checkBeacons ex to st B None w = Inr None"
    and "list_all (fresh B w) ex \<Longrightarrow> now w - st < to \<Longrightarrow>
           checkBeacons ex to st B None w = Inr (Some (now w))"
  by (auto simp: checkBeacons_def Let_def BEACON_GRACE_PERIOD_def allFound_iff)

lemma pollBeacons_recorded_passes:
  assumes "t \<noteq> 0"
  shows "list_all (fresh B w) ex \<Longrightarrow> k \<le> length es \<Longrightarrow>
     now (afterTicks (take k es) w) - t \<ge> 2000 \<Longrightarrow>
     (\<forall>i<k. now (afterTicks (take i es) w) - st < to) \<Longrightarrow>
     \<exists>r w' es'. pollBeacons ex to st B (Some t) es w = Some (r, w', es') \<and> passed r"
proof (induction k arbitrary: es w)
  case 0
  then have "now w - t \<ge> 2000" by simp
  from checkBeacons_cases(1)[OF "0.prems"(1) assms this, of to st]
  obtain r where "checkBeacons ex to st B (Some t) w = Inl r" "passed r" by blast
  then show ?case by (cases es) auto
next
  case (Suc k)
  from Suc.prems(2) obtain e es0 where es: "es = e # es0" by (cases es) auto
  let ?w1 = "resume e (w\<lparr>effects := effects w @ [Sleep (Num 500)]\<rparr>)"
  show ?case
  proof (cases "now w - t \<ge> 2000")
    case True
    from checkBeacons_cases(1)[OF Suc.prems(1) assms this, of to st]
    obtain r where "checkBeacons ex to st B (Some t) w = Inl r" "passed r" by blast
    then show ?thesis using es by auto
  next
    case False
    from Suc.prems(4) have "now (afterTicks (take 0 es) w) - st < to" by blast
    then have el: "now w - st < to" by simp
    from checkBeacons_cases(2)[OF Suc.prems(1) assms False el]
    have c: "checkBeacons ex to st B (Some t) w = Inr (Some t)" .
    have a1: "list_all (fresh B ?w1) ex" using Suc.prems(1) by (rule list_all_fresh_tick)
    have a2: "k \<le> length es0" using Suc.prems(2) es by simp
    have a3: "now (afterTicks (take k es0) ?w1) - t \<ge> 2000" using Suc.prems(3) es by simp
    have a4: "\<forall>i<k. now (afterTicks (take i es0) ?w1) - st < to"
    proof (intro allI impI)
      fix i assume "i < k"
      then have "Suc i < Suc k" by simp
      with Suc.prems(4) have "now (afterTicks (take (Suc i) es) w) - st < to" by blast
      then show "now (afterTicks (take i es0) ?w1) - st < to" using es by simp
    qed
    from Suc.IH[OF a1 a2 a3 a4] c es show ?thesis by simp
  qed
qed

lemma pollBeacons_passes:
  "now w \<noteq> 0 \<Longrightarrow> \<forall>e\<in>set es. resumedAt e \<noteq> 0 \<Longrightarrow> j \<le> k \<Longrightarrow> k \<le> length es \<Longrightarrow>
   list_all (fresh B (afterTicks (take j es) w)) ex \<Longrightarrow>
   (\<forall>i<j. \<not> list_all (fresh B (afterTicks (take i es) w)) ex) \<Longrightarrow>
   now (afterTicks (take k es) w) - now (afterTicks (take j es) w) \<ge> 2000 \<Longrightarrow>
   (\<forall>i<k. now (afterTicks (take i es) w) - st < to) \<Longrightarrow>
   \<exists>r w' es'. pollBeacons ex to st B None es w = Some (r, w', es') \<and> passed r"
proof (induction j arbitrary: es w k)
  case 0
  from "0.prems"(5) have f: "list_all (fresh B w) ex" by simp
  from "0.prems"(7) have "k \<noteq> 0" by (cases k) auto
  then obtain k' where k: "k = Suc k'" by (cases k) auto
  with "0.prems"(4) obtain e es0 where es: "es = e # es0" by (cases es) auto
  let ?w1 = "resume e (w\<lparr>effects := effects w @ [Sleep (Num 500)]\<rparr>)"
  from "0.prems"(8) k have "now (afterTicks (take 0 es) w) - st < to" by blast
  then have el: "now w - st < to" by simp
  from checkBeacons_cases(4)[OF f el] have c: "checkBeacons ex to st B None w = Inr (Some (now w))" .
  have a1: "list_all (fresh B ?w1) ex" using f by (rule list_all_fresh_tick)
  have a2: "k' \<le> length es0" using "0.prems"(4) k es by simp
  have a3: "now (afterTicks (take k' es0) ?w1) - now w \<ge> 2000" using "0.prems"(7) k es by simp
  have a4: "\<forall>i<k'. now (afterTicks (take i es0) ?w1) - st < to"
  proof (intro allI impI)
    fix i assume "i < k'"
    then have "Suc i < k" using k by simp
    with "0.prems"(8) have "now (afterTicks (take (Suc i) es) w) - st < to" by blast
    then show "now (afterTicks (take i es0) ?w1) - st < to" using es by simp
  qed
  from pollBeacons_recorded_passes[OF "0.prems"(1) a1 a2 a3 a4] c es show ?case by simp
next
  case (Suc j)
  from Suc.prems(3) obtain k' where k: "k = Suc k'" by (cases k) auto
  with Suc.prems(4) obtain e es0 where es: "es = e # es0" by (cases es) auto
  let ?w1 = "resume e (w\<lparr>effects := effects w @ [Sleep (Num 500)]\<rparr>)"
  from Suc.prems(6) have "\<not> list_all (fresh B (afterTicks (take 0 es) w)) ex" by blast
  then have nf: "\<not> list_all (fresh B w) ex" by simp
  from Suc.prems(8) k have "now (afterTicks (take 0 es) w) - st < to" by blast
  then have el: "now w - st < to" by simp
  from checkBeacons_cases(3)[OF nf el] have c: "checkBeacons ex to st B None w = Inr None" .
  have b1: "now ?w1 \<noteq> 0" using Suc.prems(2) es by simp
  have b2: "\<forall>e\<in>set es0. resumedAt e \<noteq> 0" using Suc.prems(2) es by simp
  have b3: "j \<le> k'" using Suc.prems(3) k by simp
  have b4: "k' \<le> length es0" using Suc.prems(4) k es by simp
  have b5: "list_all (fresh B (afterTicks (take j es0) ?w1)) ex" using Suc.prems(5) es by simp
  have b6: "\<forall>i<j. \<not> list_all (fresh B (afterTicks (take i es0) ?w1)) ex"
  proof (intro allI impI)
    fix i assume "i < j"
    then have "Suc i < Suc j" by simp
    with Suc.prems(6) have "\<not> list_all (fresh B (afterTicks (take (Suc i) es) w)) ex" by blast
    then show "\<not> list_all (fresh B (afterTicks (take i es0) ?w1)) ex" using es by simp
  qed
  have b7: "now (afterTicks (take k' es0) ?w1) - now (afterTicks (take j es0) ?w1) \<ge> 2000"
    using Suc.prems(7) k es by simp
  have b8: "\<forall>i<k'. now (afterTicks (take i es0) ?w1) - st < to"
  proof (intro allI impI)
    fix i assume "i < k'"
    then have "Suc i < k" using k by simp
    with Suc.prems(8) have "now (afterTicks (take (Suc i) es) w) - st < to" by blast
    then show "now (afterTicks (take i es0) ?w1) - st < to" using es by simp
  qed
  from Suc.IH[OF b1 b2 b3 b4 b5 b6 b7 b8] c es show ?case by simp
qed

text \<open>
  Claim C2, on a clock that never reads 0 (it counts the milliseconds since 1970, and
  the source takes a grace start of 0 for none). If an exact-mode wait passes, it does
  so at some tick \<open>k\<close>, and there is a tick \<open>j \<le> k\<close>, the first at which every required
  category is in the received set and not in the baseline, such that at least 2000 ms
  lie between the clock at tick \<open>j\<close> and the clock at tick \<open>k\<close>: the grace period runs
  from the first such tick, whatever arrives afterwards. The duration returned is the
  time since the wait began, and the categories returned are the required ones.
  Conversely, if \<open>m\<close> is the first tick with every required category fresh, and the
  clock at a tick \<open>n\<close> is 2000 ms or more past the clock at \<open>m\<close>, and no tick before \<open>n\<close>
  has reached the deadline, the wait passes. And a wait whose events reach the
  deadline returns.
\<close>

theorem waitForBeacons_grace_period:
  assumes "now w \<noteq> 0" and "\<forall>e\<in>set es. resumedAt e \<noteq> 0"
  shows "(waitForBeacons expected timeout es w = Some (r, w', es') \<and> passed r
      \<longrightarrow> (\<exists>j k. j \<le> k \<and> k \<le> length es \<and> es' = drop k es \<and> w' = afterTicks (take k es) w
            \<and> list_all (fresh (beaconsReceived w) (afterTicks (take j es) w)) expected
            \<and> (\<forall>i<j. \<not> list_all (fresh (beaconsReceived w) (afterTicks (take i es) w)) expected)
            \<and> now w' - now (afterTicks (take j es) w) \<ge> BEACON_GRACE_PERIOD
            \<and> duration r = now w' - now w \<and> beaconsFound r = expected))
   \<and> (m \<le> n \<and> n \<le> length es
        \<and> list_all (fresh (beaconsReceived w) (afterTicks (take m es) w)) expected
        \<and> (\<forall>i<m. \<not> list_all (fresh (beaconsReceived w) (afterTicks (take i es) w)) expected)
        \<and> now (afterTicks (take n es) w) - now (afterTicks (take m es) w) \<ge> BEACON_GRACE_PERIOD
        \<and> (\<forall>i<n. now (afterTicks (take i es) w) - now w < timeout)
      \<longrightarrow> (\<exists>r w' es'. waitForBeacons expected timeout es w = Some (r, w', es') \<and> passed r))
   \<and> ((\<exists>e\<in>set es. timeout \<le> resumedAt e - now w)
      \<longrightarrow> waitForBeacons expected timeout es w \<noteq> None)"
proof (intro conjI impI)
  assume a: "waitForBeacons expected timeout es w = Some (r, w', es') \<and> passed r"
  then have "pollBeacons expected timeout (now w) (beaconsReceived w) None es w
               = Some (r, w', es')"
    by (simp add: waitForBeacons_def)
  from pollBeacons_grace[OF this _ assms] a
  show "\<exists>j k. j \<le> k \<and> k \<le> length es \<and> es' = drop k es \<and> w' = afterTicks (take k es) w
            \<and> list_all (fresh (beaconsReceived w) (afterTicks (take j es) w)) expected
            \<and> (\<forall>i<j. \<not> list_all (fresh (beaconsReceived w) (afterTicks (take i es) w)) expected)
            \<and> now w' - now (afterTicks (take j es) w) \<ge> BEACON_GRACE_PERIOD
            \<and> duration r = now w' - now w \<and> beaconsFound r = expected"
    unfolding BEACON_GRACE_PERIOD_def by blast
next
  assume b: "m \<le> n \<and> n \<le> length es
        \<and> list_all (fresh (beaconsReceived w) (afterTicks (take m es) w)) expected
        \<and> (\<forall>i<m. \<not> list_all (fresh (beaconsReceived w) (afterTicks (take i es) w)) expected)
        \<and> now (afterTicks (take n es) w) - now (afterTicks (take m es) w) \<ge> BEACON_GRACE_PERIOD
        \<and> (\<forall>i<n. now (afterTicks (take i es) w) - now w < timeout)"
  then have
    "\<exists>r w' es'. pollBeacons expected timeout (now w) (beaconsReceived w) None es w
                   = Some (r, w', es') \<and> passed r"
    using pollBeacons_passes[OF assms, of m n "beaconsReceived w" expected "now w" timeout]
    unfolding BEACON_GRACE_PERIOD_def by blast
  then show "\<exists>r w' es'. waitForBeacons expected timeout es w = Some (r, w', es') \<and> passed r"
    by (simp add: waitForBeacons_def)
next
  assume "\<exists>e\<in>set es. timeout \<le> resumedAt e - now w"
  then show "waitForBeacons expected timeout es w \<noteq> None"
    using pollBeacons_returns[of timeout w "now w" es] by (simp add: waitForBeacons_def)
qed

text \<open>
  A launch reported 500 ms into the wait and an unrelated beacon 500 ms later: the wait
  passes 2000 ms after the report, 2500 ms after it began. With a tick due 2000 ms
  after the report, the wait passes there. With a deadline of 1000 ms and nothing
  reported, the wait returns.
\<close>

theorem waitForBeacons_grace_period_witness:
  "(\<exists>r w' es'.
     waitForBeacons [''AppLaunchComplete''] 30000
       [\<lparr>arrived = [''AppLaunchComplete Duration(5 ms)''], resumedAt = 1500, succeeded = True\<rparr>,
        \<lparr>arrived = [''AppDialogInitiate''], resumedAt = 2000, succeeded = True\<rparr>,
        \<lparr>arrived = [], resumedAt = 2500, succeeded = True\<rparr>,
        \<lparr>arrived = [], resumedAt = 3000, succeeded = True\<rparr>,
        \<lparr>arrived = [], resumedAt = 3500, succeeded = True\<rparr>]
       (newTester ''dev'' ''1234'' ''series'' 30 1000) = Some (r, w', es')
     \<and> passed r \<and> duration r = 2500 \<and> now w' = 3500 \<and> beaconsFound r = [''AppLaunchComplete''])
   \<and> (\<exists>r w' es'.
     waitForBeacons [''AppLaunchComplete''] 30000
       [\<lparr>arrived = [''AppLaunchComplete Duration(5 ms)''], resumedAt = 1500, succeeded = True\<rparr>,
        \<lparr>arrived = [''AppDialogInitiate''], resumedAt = 3500, succeeded = True\<rparr>]
       (newTester ''dev'' ''1234'' ''series'' 30 1000) = Some (r, w', es')
     \<and> passed r)
   \<and> waitForBeacons [''AppLaunchComplete''] 1000
       [\<lparr>arrived = [], resumedAt = 1500, succeeded = True\<rparr>,
        \<lparr>arrived = [], resumedAt = 2000, succeeded = True\<rparr>]
       (newTester ''dev'' ''1234'' ''series'' 30 1000) \<noteq> None"
proof -
  let ?es = "[\<lparr>arrived = [''AppLaunchComplete Duration(5 ms)''], resumedAt = 1500, succeeded = True\<rparr>,
        \<lparr>arrived = [''AppDialogInitiate''], resumedAt = 2000, succeeded = True\<rparr>,
        \<lparr>arrived = [], resumedAt = 2500, succeeded = True\<rparr>,
        \<lparr>arrived = [], resumedAt = 3000, succeeded = True\<rparr>,
        \<lparr>arrived = [], resumedAt = 3500, succeeded = True\<rparr>]"
  let ?w = "newTester ''dev'' ''1234'' ''series'' 30 1000"
  have "map_option (\<lambda>(r, w', es'). (passed r, now w'))
          (waitForBeacons [''AppLaunchComplete''] 30000 ?es ?w) = Some (True, 3500)"
    by (simp add: run_defs)
  then obtain r w' es' where
    run: "waitForBeacons [''AppLaunchComplete''] 30000 ?es ?w = Some (r, w', es')"
    and p: "passed r" and n: "now w' = 3500"
    by auto
  have c: "now ?w \<noteq> 0" "\<forall>e\<in>set ?es. resumedAt e \<noteq> 0"
    by (simp_all add: newTester_def)
  from waitForBeacons_grace_period[OF c, where expected = "[''AppLaunchComplete'']" and timeout = 30000
         and r = r and w' = w' and es' = es'] run p
  have "duration r = now w' - now ?w" "beaconsFound r = [''AppLaunchComplete'']" by auto
  with n have "duration r = 2500" by (simp add: newTester_def)
  with run p n \<open>beaconsFound r = [''AppLaunchComplete'']\<close>
  have A: "\<exists>r w' es'. waitForBeacons [''AppLaunchComplete''] 30000 ?es ?w = Some (r, w', es')
     \<and> passed r \<and> duration r = 2500 \<and> now w' = 3500 \<and> beaconsFound r = [''AppLaunchComplete'']"
    by blast
  let ?e2 = "[\<lparr>arrived = [''AppLaunchComplete Duration(5 ms)''], resumedAt = 1500, succeeded = True\<rparr>,
        \<lparr>arrived = [''AppDialogInitiate''], resumedAt = 3500, succeeded = True\<rparr>]"
  have c2: "\<forall>e\<in>set ?e2. resumedAt e \<noteq> 0" by simp
  have h: "(1::nat) \<le> 2 \<and> 2 \<le> length ?e2
        \<and> list_all (fresh (beaconsReceived ?w) (afterTicks (take 1 ?e2) ?w)) [''AppLaunchComplete'']
        \<and> (\<forall>i<1. \<not> list_all (fresh (beaconsReceived ?w) (afterTicks (take i ?e2) ?w)) [''AppLaunchComplete''])
        \<and> now (afterTicks (take 2 ?e2) ?w) - now (afterTicks (take 1 ?e2) ?w) \<ge> BEACON_GRACE_PERIOD
        \<and> (\<forall>i<2. now (afterTicks (take i ?e2) ?w) - now ?w < 30000)"
    by (simp add: run_defs less_Suc_eq numeral_2_eq_2)
  from waitForBeacons_grace_period[OF c(1) c2, where m = 1 and n = 2
         and expected = "[''AppLaunchComplete'']" and timeout = 30000] h
  have B: "\<exists>r w' es'. waitForBeacons [''AppLaunchComplete''] 30000 ?e2 ?w = Some (r, w', es') \<and> passed r"
    by blast
  let ?e3 = "[\<lparr>arrived = [], resumedAt = 1500, succeeded = True\<rparr>,
        \<lparr>arrived = [], resumedAt = 2000, succeeded = True\<rparr>]"
  have c3: "\<forall>e\<in>set ?e3. resumedAt e \<noteq> 0" by simp
  have h3: "\<exists>e\<in>set ?e3. 1000 \<le> resumedAt e - now ?w" by (simp add: newTester_def)
  from waitForBeacons_grace_period[OF c(1) c3, where expected = "[''AppLaunchComplete'']"
         and timeout = 1000] h3
  have C: "waitForBeacons [''AppLaunchComplete''] 1000 ?e3 ?w \<noteq> None" by blast
  from A B C show ?thesis by blast
qed

text \<open>
  Claim C5 fails on the code when a required category is in the baseline. The wait
  begins with AppLaunchComplete already received (the report came in while the launch
  command was in flight), nothing arrives, and the deadline of 1000 ms passes. The
  list of missing categories in the error is empty, because it is computed from the
  received set alone, although AppLaunchComplete was not seen since the baseline and
  is not among the categories found.
\<close>

theorem waitForBeacons_missing_ignores_baseline:
  "map_option (\<lambda>(r, w', es').
       (passed r, error r, beaconsFound r,
        filter (\<lambda>b. \<not> fresh {''AppLaunchComplete''} w' b) [''AppLaunchComplete'']))
     (waitForBeacons [''AppLaunchComplete''] 1000
        [\<lparr>arrived = [], resumedAt = 1500, succeeded = True\<rparr>,
         \<lparr>arrived = [], resumedAt = 2000, succeeded = True\<rparr>]
        ((newTester ''dev'' ''1234'' ''series'' 1 1000)
           \<lparr>beaconsReceived := {''AppLaunchComplete''}\<rparr>))
   = Some (False, Some (Timeout 1000 []), [], [''AppLaunchComplete''])"
  by (simp add: run_defs)

subsection \<open>Smart mode\<close>

lemma videoCheck_VOD_stable:
  "snd (snd (videoCheck ex B w)) = Some ''VOD'' \<Longrightarrow>
   snd (snd (videoCheck ex B (resume e w))) = Some ''VOD''"
  by (auto simp: videoCheck_def Let_def fresh_resume split: if_splits)

lemma checks_detected [simp]:
  "videoCheck ex B (w\<lparr>detectedContentType := d\<rparr>) = videoCheck ex B w"
  "appLaunchCheck ex B (w\<lparr>detectedContentType := d\<rparr>) = appLaunchCheck ex B w"
  by (simp_all add: videoCheck_def appLaunchCheck_def fresh_def)

lemma checkBeaconsSmart_passed:
  "checkBeaconsSmart ex to st B w = (Some r, w') \<Longrightarrow> passed r \<Longrightarrow>
     appLaunchCheck ex B w' \<and> fst (videoCheck ex B w')
     \<and> contentType r = snd (snd (videoCheck ex B w'))"
  by (auto simp: checkBeaconsSmart_def Let_def split: prod.splits if_splits option.splits)

lemma pollSmart_passed:
  "pollSmart ex to st B es w = Some (r, w', es') \<Longrightarrow> passed r \<Longrightarrow>
     appLaunchCheck ex B w' \<and> fst (videoCheck ex B w')
     \<and> contentType r = snd (snd (videoCheck ex B w'))"
proof (induction es arbitrary: w)
  case Nil
  then show ?case
    using checkBeaconsSmart_passed[of ex to st B w r w']
    by (auto split: prod.splits option.splits)
next
  case (Cons e es)
  obtain x w1 where c: "checkBeaconsSmart ex to st B w = (x, w1)"
    by (cases "checkBeaconsSmart ex to st B w")
  show ?case
  proof (cases x)
    case None
    with c Cons.prems(1)
    have "pollSmart ex to st B es (resume e (w1\<lparr>effects := effects w1 @ [Sleep (Num 500)]\<rparr>))
            = Some (r, w', es')"
      by simp
    from Cons.IH[OF this Cons.prems(2)] show ?thesis .
  next
    case (Some r0)
    with c Cons.prems(1) have "r0 = r" "w1 = w'" by auto
    with c Some Cons.prems(2) checkBeaconsSmart_passed[of ex to st B w r w']
    show ?thesis by simp
  qed
qed


text \<open>The smart wait returns at the latest on the first tick at or after its deadline.\<close>

lemma checkBeaconsSmart_deadline:
  "to \<le> now w - st \<Longrightarrow> \<exists>r w'. checkBeaconsSmart ex to st B w = (Some r, w')"
  by (simp add: checkBeaconsSmart_def Let_def split: prod.splits)

lemma pollSmart_returns:
  "to \<le> now w - st \<or> (\<exists>e\<in>set es. to \<le> resumedAt e - st) \<Longrightarrow>
   pollSmart ex to st B es w \<noteq> None"
proof (induction es arbitrary: w)
  case Nil
  then have "to \<le> now w - st" by simp
  from checkBeaconsSmart_deadline[OF this] obtain r w' where
    "checkBeaconsSmart ex to st B w = (Some r, w')" by blast
  then show ?case by simp
next
  case (Cons e es)
  obtain x w1 where c: "checkBeaconsSmart ex to st B w = (x, w1)"
    by (cases "checkBeaconsSmart ex to st B w")
  show ?case
  proof (cases x)
    case (Some r)
    with c show ?thesis by simp
  next
    case None
    with c checkBeaconsSmart_deadline[of to w st ex B] have "\<not> to \<le> now w - st" by auto
    with Cons.prems have "to \<le> resumedAt e - st \<or> (\<exists>x\<in>set es. to \<le> resumedAt x - st)"
      by auto
    then have "to \<le> now (resume e (w1\<lparr>effects := effects w1 @ [Sleep (Num 500)]\<rparr>)) - st
                 \<or> (\<exists>x\<in>set es. to \<le> resumedAt x - st)" by simp
    from Cons.IH[OF this] c None show ?thesis by simp
  qed
qed

text \<open>
  Claim C1, as amended. Every tick tests the VOD pair before the Live pair and computes
  \<^verbatim>\<open>contentType\<close> anew from the received set and the baseline; the wait returns the
  value of the tick at which it resolves: VOD if both VOD categories are fresh then,
  Live otherwise (and then both Live categories are fresh). A tick that finds VOD is
  followed only by ticks that find VOD, since the received set grows.
\<close>

theorem smart_contentType_at_resolution:
  assumes "waitForBeaconsWithSmartDetection expected timeout es w = Some (r, w', es')"
    and "passed r"
    and "''VideoPlaybackStart'' \<in> set expected"
  shows "contentType r =
           (if fresh (beaconsReceived w) w' ''VODStartInitiate''
               \<and> fresh (beaconsReceived w) w' ''VODStartComplete''
            then Some ''VOD'' else Some ''Live'')
       \<and> (fresh (beaconsReceived w) w' ''VODStartInitiate''
            \<and> fresh (beaconsReceived w) w' ''VODStartComplete''
          \<or> fresh (beaconsReceived w) w' ''LiveStartInitiate''
            \<and> fresh (beaconsReceived w) w' ''LiveStartComplete'')
       \<and> (\<forall>v e. snd (snd (videoCheck expected (beaconsReceived w) v)) = Some ''VOD''
            \<longrightarrow> snd (snd (videoCheck expected (beaconsReceived w) (resume e v))) = Some ''VOD'')"
proof -
  from assms(1) have "pollSmart expected timeout (now w) (beaconsReceived w) es w
                        = Some (r, w', es')"
    by (simp add: waitForBeaconsWithSmartDetection_def)
  from pollSmart_passed[OF this assms(2)]
  have "fst (videoCheck expected (beaconsReceived w) w')"
    and "contentType r = snd (snd (videoCheck expected (beaconsReceived w) w'))" by simp_all
  with assms(3) have
    "contentType r =
           (if fresh (beaconsReceived w) w' ''VODStartInitiate''
               \<and> fresh (beaconsReceived w) w' ''VODStartComplete''
            then Some ''VOD'' else Some ''Live'')"
    and "fresh (beaconsReceived w) w' ''VODStartInitiate''
            \<and> fresh (beaconsReceived w) w' ''VODStartComplete''
          \<or> fresh (beaconsReceived w) w' ''LiveStartInitiate''
            \<and> fresh (beaconsReceived w) w' ''LiveStartComplete''"
    by (auto simp: videoCheck_def Let_def split: if_splits)
  moreover have "\<forall>v e. snd (snd (videoCheck expected (beaconsReceived w) v)) = Some ''VOD''
            \<longrightarrow> snd (snd (videoCheck expected (beaconsReceived w) (resume e v))) = Some ''VOD''"
    using videoCheck_VOD_stable by blast
  ultimately show ?thesis by blast
qed

text \<open>
  A launch test for a movie. The Live pair arrives first; the tick after it computes
  Live and goes on waiting for the launch. The VOD pair and the launch report arrive
  before the next tick, which resolves the wait with VOD.
\<close>

theorem smart_contentType_at_resolution_witness:
  "\<exists>r w' es'.
     waitForBeaconsWithSmartDetection [''AppLaunchComplete'', ''VideoPlaybackStart''] 30000
         [\<lparr>arrived = [''LiveStartInitiate TimeBase(1 ms)'', ''LiveStartComplete Duration(2 ms)''],
           resumedAt = 1500, succeeded = True\<rparr>,
          \<lparr>arrived = [''VODStartInitiate TimeBase(3 ms)'', ''VODStartComplete Duration(4 ms)'',
                      ''AppLaunchComplete Duration(5 ms)''],
           resumedAt = 2000, succeeded = True\<rparr>]
         (newTester ''dev'' ''1234'' ''movie'' 30 1000) = Some (r, w', es')
     \<and> passed r \<and> contentType r = Some ''VOD''
     \<and> fresh {} w' ''VODStartInitiate'' \<and> fresh {} w' ''VODStartComplete''"
proof -
  let ?ex = "[''AppLaunchComplete'', ''VideoPlaybackStart'']"
  let ?es = "[\<lparr>arrived = [''LiveStartInitiate TimeBase(1 ms)'', ''LiveStartComplete Duration(2 ms)''],
           resumedAt = 1500, succeeded = True\<rparr>,
          \<lparr>arrived = [''VODStartInitiate TimeBase(3 ms)'', ''VODStartComplete Duration(4 ms)'',
                      ''AppLaunchComplete Duration(5 ms)''],
           resumedAt = 2000, succeeded = True\<rparr>]"
  let ?w = "newTester ''dev'' ''1234'' ''movie'' 30 1000"
  have "map_option (\<lambda>(r, w', es'). (passed r, fresh {} w' ''VODStartInitiate'',
            fresh {} w' ''VODStartComplete''))
          (waitForBeaconsWithSmartDetection ?ex 30000 ?es ?w) = Some (True, True, True)"
    by (simp add: run_defs)
  then obtain r w' es' where
    run: "waitForBeaconsWithSmartDetection ?ex 30000 ?es ?w = Some (r, w', es')"
    and p: "passed r"
    and f: "fresh {} w' ''VODStartInitiate''" "fresh {} w' ''VODStartComplete''"
    by auto
  have v: "''VideoPlaybackStart'' \<in> set ?ex" by simp
  have b: "beaconsReceived ?w = {}" by (simp add: newTester_def)
  from smart_contentType_at_resolution[OF run p v] f
  have "contentType r = Some ''VOD''" unfolding b by simp
  with run p f show ?thesis by blast
qed

text \<open>
  Claim C1 as stated fails on that run: the tick after the Live pair finds it complete
  (it computes Live and does not resolve, the launch being outstanding), and yet the
  wait returns VOD, and \<^verbatim>\<open>detectedContentType\<close> ends as VOD.
\<close>

theorem smart_contentType_counterexample:
  "fst (checkBeaconsSmart [''AppLaunchComplete'', ''VideoPlaybackStart''] 30000 1000 {}
          (resume \<lparr>arrived = [''LiveStartInitiate TimeBase(1 ms)'', ''LiveStartComplete Duration(2 ms)''],
                   resumedAt = 1500, succeeded = True\<rparr>
             (newTester ''dev'' ''1234'' ''movie'' 30 1000))) = None
   \<and> snd (snd (videoCheck [''AppLaunchComplete'', ''VideoPlaybackStart''] {}
          (resume \<lparr>arrived = [''LiveStartInitiate TimeBase(1 ms)'', ''LiveStartComplete Duration(2 ms)''],
                   resumedAt = 1500, succeeded = True\<rparr>
             (newTester ''dev'' ''1234'' ''movie'' 30 1000)))) = Some ''Live''
   \<and> map_option (\<lambda>(r, w', es'). (passed r, contentType r, detectedContentType w'))
      (waitForBeaconsWithSmartDetection [''AppLaunchComplete'', ''VideoPlaybackStart''] 30000
         [\<lparr>arrived = [''LiveStartInitiate TimeBase(1 ms)'', ''LiveStartComplete Duration(2 ms)''],
           resumedAt = 1500, succeeded = True\<rparr>,
          \<lparr>arrived = [''VODStartInitiate TimeBase(3 ms)'', ''VODStartComplete Duration(4 ms)'',
                      ''AppLaunchComplete Duration(5 ms)''],
           resumedAt = 2000, succeeded = True\<rparr>]
         (newTester ''dev'' ''1234'' ''movie'' 30 1000))
     = Some (True, Some ''VOD'', Some ''VOD'')"
  by (simp add: run_defs)

subsection \<open>The baseline\<close>

text \<open>
  Claim C4. A wait that passes, exact or smart, has found each category it counted in
  the received set at its end and not in the set as it was when the wait began; a
  member of the baseline is never fresh, whatever is received after. And
  \<^verbatim>\<open>runDeepLinkTest\<close> clears the received set before it sends its command, so what an
  earlier phase has left there has no effect on it.
\<close>

theorem baseline_excludes_stale:
  "(waitForBeacons expected timeout es w = Some (r, w', es') \<and> passed r
      \<longrightarrow> (\<forall>b\<in>set expected. b \<in> beaconsReceived w' \<and> b \<notin> beaconsReceived w))
   \<and> (waitForBeaconsWithSmartDetection expected timeout es w = Some (r, w', es') \<and> passed r
      \<longrightarrow> (''AppLaunchComplete'' \<in> set expected
            \<longrightarrow> ''AppLaunchComplete'' \<in> beaconsReceived w' - beaconsReceived w)
          \<and> (''VideoPlaybackStart'' \<in> set expected
            \<longrightarrow> {''VODStartInitiate'', ''VODStartComplete''} \<subseteq> beaconsReceived w' - beaconsReceived w
                \<or> {''LiveStartInitiate'', ''LiveStartComplete''} \<subseteq> beaconsReceived w' - beaconsReceived w))
   \<and> (b \<in> beaconsReceived w \<longrightarrow> \<not> fresh (beaconsReceived w) v b)
   \<and> runDeepLinkTest name cmd es (w\<lparr>beaconsReceived := X, beaconTimings := T\<rparr>)
       = runDeepLinkTest name cmd es w"
proof (intro conjI impI)
  assume a: "waitForBeacons expected timeout es w = Some (r, w', es') \<and> passed r"
  then have "pollBeacons expected timeout (now w) (beaconsReceived w) None es w = Some (r, w', es')"
    by (simp add: waitForBeacons_def)
  from pollBeacons_passed[OF this] a
  show "\<forall>b\<in>set expected. b \<in> beaconsReceived w' \<and> b \<notin> beaconsReceived w"
    by (simp add: list_all_iff fresh_def)
next
  assume a: "waitForBeaconsWithSmartDetection expected timeout es w = Some (r, w', es') \<and> passed r"
  then have "pollSmart expected timeout (now w) (beaconsReceived w) es w = Some (r, w', es')"
    by (simp add: waitForBeaconsWithSmartDetection_def)
  from pollSmart_passed[OF this] a
  have al: "appLaunchCheck expected (beaconsReceived w) w'"
    and v: "fst (videoCheck expected (beaconsReceived w) w')" by simp_all
  { assume "''AppLaunchComplete'' \<in> set expected"
    with al show "''AppLaunchComplete'' \<in> beaconsReceived w' - beaconsReceived w"
      by (simp add: appLaunchCheck_def fresh_def) }
  { assume "''VideoPlaybackStart'' \<in> set expected"
    with v show "{''VODStartInitiate'', ''VODStartComplete''} \<subseteq> beaconsReceived w' - beaconsReceived w
                \<or> {''LiveStartInitiate'', ''LiveStartComplete''} \<subseteq> beaconsReceived w' - beaconsReceived w"
      by (auto simp: videoCheck_def Let_def fresh_def split: if_splits) }
next
  assume "b \<in> beaconsReceived w"
  then show "\<not> fresh (beaconsReceived w) v b" by (simp add: fresh_def)
next
  show "runDeepLinkTest name cmd es (w\<lparr>beaconsReceived := X, beaconTimings := T\<rparr>)
       = runDeepLinkTest name cmd es w"
    by (simp add: runDeepLinkTest_def clearBeacons_def requiredBeacons_def)
qed

text \<open>
  An exact wait and a smart wait that pass on what arrives during them, and a stale
  AppLaunchComplete that a new report does not make fresh.
\<close>

theorem baseline_excludes_stale_witness:
  "(\<exists>r w' es'.
      waitForBeacons [''AppLaunchComplete''] 30000
       [\<lparr>arrived = [''AppLaunchComplete Duration(5 ms)''], resumedAt = 1500, succeeded = True\<rparr>,
        \<lparr>arrived = [], resumedAt = 3500, succeeded = True\<rparr>]
       (newTester ''dev'' ''1234'' ''series'' 30 1000) = Some (r, w', es')
      \<and> passed r \<and> ''AppLaunchComplete'' \<in> beaconsReceived w')
   \<and> (\<exists>r w' es'.
      waitForBeaconsWithSmartDetection [''AppLaunchComplete'', ''VideoPlaybackStart''] 30000
       [\<lparr>arrived = [''VODStartInitiate TimeBase(3 ms)'', ''VODStartComplete Duration(4 ms)'',
                    ''AppLaunchComplete Duration(5 ms)''],
         resumedAt = 1500, succeeded = True\<rparr>]
       (newTester ''dev'' ''1234'' ''movie'' 30 1000) = Some (r, w', es')
      \<and> passed r \<and> ''AppLaunchComplete'' \<in> beaconsReceived w'
      \<and> {''VODStartInitiate'', ''VODStartComplete''} \<subseteq> beaconsReceived w')
   \<and> \<not> fresh {''AppLaunchComplete''}
          (onData ''AppLaunchComplete Duration(5 ms)''
             ((newTester ''dev'' ''1234'' ''series'' 30 1000)
                \<lparr>beaconsReceived := {''AppLaunchComplete''}\<rparr>))
          ''AppLaunchComplete''"
proof -
  let ?e1 = "[\<lparr>arrived = [''AppLaunchComplete Duration(5 ms)''], resumedAt = 1500, succeeded = True\<rparr>,
        \<lparr>arrived = [], resumedAt = 3500, succeeded = True\<rparr>]"
  let ?w1 = "newTester ''dev'' ''1234'' ''series'' 30 1000"
  let ?x2 = "[''AppLaunchComplete'', ''VideoPlaybackStart'']"
  let ?e2 = "[\<lparr>arrived = [''VODStartInitiate TimeBase(3 ms)'', ''VODStartComplete Duration(4 ms)'',
                    ''AppLaunchComplete Duration(5 ms)''],
         resumedAt = 1500, succeeded = True\<rparr>]"
  let ?w2 = "newTester ''dev'' ''1234'' ''movie'' 30 1000"
  let ?w3 = "(newTester ''dev'' ''1234'' ''series'' 30 1000)\<lparr>beaconsReceived := {''AppLaunchComplete''}\<rparr>"
  have "map_option (\<lambda>(r, w', es'). passed r) (waitForBeacons [''AppLaunchComplete''] 30000 ?e1 ?w1)
          = Some True"
    by (simp add: run_defs)
  then obtain r1 v1 s1 where
    run1: "waitForBeacons [''AppLaunchComplete''] 30000 ?e1 ?w1 = Some (r1, v1, s1)"
    and p1: "passed r1" by auto
  from baseline_excludes_stale[of "[''AppLaunchComplete'']" 30000 ?e1 ?w1 r1 v1 s1] run1 p1
  have a: "''AppLaunchComplete'' \<in> beaconsReceived v1" by simp
  have "map_option (\<lambda>(r, w', es'). passed r) (waitForBeaconsWithSmartDetection ?x2 30000 ?e2 ?w2)
          = Some True"
    by (simp add: run_defs)
  then obtain r2 v2 s2 where
    run2: "waitForBeaconsWithSmartDetection ?x2 30000 ?e2 ?w2 = Some (r2, v2, s2)"
    and p2: "passed r2" by auto
  have l: "{''LiveStartInitiate'', ''LiveStartComplete''} \<inter> beaconsReceived v2 = {}"
    using run2 by (auto simp: run_defs)
  from baseline_excludes_stale[of ?x2 30000 ?e2 ?w2 r2 v2 s2] run2 p2 l
  have b: "''AppLaunchComplete'' \<in> beaconsReceived v2"
    "{''VODStartInitiate'', ''VODStartComplete''} \<subseteq> beaconsReceived v2" by auto
  have m: "''AppLaunchComplete'' \<in> beaconsReceived ?w3" by simp
  from baseline_excludes_stale[of _ _ _ ?w3 _ _ _ "''AppLaunchComplete''"
         "onData ''AppLaunchComplete Duration(5 ms)'' ?w3"] m
  have c: "\<not> fresh {''AppLaunchComplete''} (onData ''AppLaunchComplete Duration(5 ms)'' ?w3)
             ''AppLaunchComplete''" by simp
  from run1 p1 a run2 p2 b c show ?thesis by blast
qed


section \<open>Properties of the test sequence\<close>

lemma onData_fields [simp]:
  "testResults (onData c w) = testResults w"
  "effects (onData c w) = effects w"
  "waitTime (onData c w) = waitTime w"
  "appId (onData c w) = appId w"
  "environ (onData c w) = environ w"
  by (simp_all add: onData_defs)

lemma fold_onData_fields [simp]:
  "testResults (fold onData cs w) = testResults w"
  "effects (fold onData cs w) = effects w"
  "waitTime (fold onData cs w) = waitTime w"
  "appId (fold onData cs w) = appId w"
  "environ (fold onData cs w) = environ w"
  by (induction cs arbitrary: w) simp_all

lemma resume_fields [simp]:
  "testResults (resume e w) = testResults w"
  "effects (resume e w) = effects w"
  "waitTime (resume e w) = waitTime w"
  "appId (resume e w) = appId w"
  "environ (resume e w) = environ w"
  by (simp_all add: resume_def)








lemmas seq_defs = runTests_def runTestsBody_def runDeepLinkTests_def runLaunchPhase_def
  runDeepLinkTest_def runInputTest_def ensureAppRunning_def sendEcpCommand_def
  sendEcpKeypress_def clearBeacons_def requiredBeacons_def waitedResult_def sendFailedResult_def
  handleSignIn_def formatResults_def



section \<open>Properties of the script runner\<close>







section \<open>Properties of the validator\<close>

lemmas validate_defs = validate_def validateSteps_def validateStep_def validateAction_def
  defaultWaitOf_def orElse_def validStepTypes_def validKeys_def isString_def jsAdd_def jsCeil_def
  textDuration_def toLowerCase_def lowerChar_def Let_def



text \<open>
  Claim C8 fails on the code for a text step without a value. The script
  \<^verbatim>\<open>steps: [{text: null}, {bogus: x}]\<close> has two invalid steps. The validator reports the
  first, then reads the length of \<^verbatim>\<open>null\<close>, which throws; \<^verbatim>\<open>validate\<close> catches the
  error and reports it as a parse failure, and the second step is never looked at,
  although on its own it is reported as an unknown step type.
\<close>

theorem validate_stops_at_null_text:
  "validate (Parsed (YMap [(''steps'',
       YSeq [YMap [(''text'', YNull)], YMap [(''bogus'', YStr ''x'')]])]))
     = \<lparr>valid = False, errors = [TextNeedsString 1, FailedToParse TypeError],
        stepCount = 2, estimatedDuration = Num 0\<rparr>
   \<and> validateStep 1 2 (Num 1) (YMap [(''bogus'', YStr ''x'')]) [] (Num 0)
     = (None, [UnknownStepType 2 ''bogus''], Num 0)"
  by (simp add: validate_defs)


section \<open>Properties of the run's result\<close>

lemma formatResults_success:
  "success (formatResults None w)
     \<longleftrightarrow> testResults w \<noteq> [] \<and> (\<forall>t\<in>set (testResults w). passed t)"
  by (auto simp: formatResults_def Let_def length_filter_all)

lemma formatResults_override: "success (formatResults (Some b) w) = b"
  by (simp add: formatResults_def Let_def)

text \<open>
  Claim C10. The success flag that \<^verbatim>\<open>formatResults()\<close> computes holds exactly when
  there is at least one test result and every test result has passed;
  \<^verbatim>\<open>formatResults(false)\<close> reports failure. A run that returns has either thrown an error
  in its body, and reports failure, or has completed its body, and reports the flag
  computed from the results it has accumulated.
\<close>

theorem runTests_success:
  "(success (formatResults None w)
      \<longleftrightarrow> testResults w \<noteq> [] \<and> (\<forall>t\<in>set (testResults w). passed t))
   \<and> \<not> success (formatResults (Some False) w)
   \<and> (runTests es w = Some (res, w', es')
      \<longrightarrow> (\<exists>x. runTestsBody es w = Some (Inl x, w', es') \<and> \<not> success res)
          \<or> (runTestsBody es w = Some (Inr (), w', es')
              \<and> (success res \<longleftrightarrow> testResults w' \<noteq> [] \<and> (\<forall>t\<in>set (testResults w'). passed t))))"
proof (intro conjI impI)
  show "success (formatResults None w)
      \<longleftrightarrow> testResults w \<noteq> [] \<and> (\<forall>t\<in>set (testResults w). passed t)"
    by (rule formatResults_success)
  show "\<not> success (formatResults (Some False) w)"
    by (simp add: formatResults_override)
next
  assume a: "runTests es w = Some (res, w', es')"
  then obtain b where body: "runTestsBody es w = Some (b, w', es')"
    and res: "res = (case b of Inl _ \<Rightarrow> formatResults (Some False) w'
                             | Inr _ \<Rightarrow> formatResults None w')"
    by (auto simp: runTests_def split: bind_splits)
  show "(\<exists>x. runTestsBody es w = Some (Inl x, w', es') \<and> \<not> success res)
          \<or> (runTestsBody es w = Some (Inr (), w', es')
              \<and> (success res \<longleftrightarrow> testResults w' \<noteq> [] \<and> (\<forall>t\<in>set (testResults w'). passed t)))"
  proof (cases b)
    case (Inl x)
    with body res show ?thesis by (simp add: formatResults_override)
  next
    case (Inr u)
    with body res show ?thesis by (simp add: formatResults_success)
  qed
qed

text \<open>
  A launch-only run whose launch is reported passes with one result; a run whose
  telnet connection fails reports failure with no result.
\<close>

theorem runTests_success_witness:
  "(\<exists>res w' es'.
      runTests
        [\<lparr>arrived = [], resumedAt = 1100, succeeded = True\<rparr>,
         \<lparr>arrived = [], resumedAt = 4100, succeeded = True\<rparr>,
         \<lparr>arrived = [], resumedAt = 4200, succeeded = True\<rparr>,
         \<lparr>arrived = [''AppLaunchComplete Duration(5 ms)''], resumedAt = 4700, succeeded = True\<rparr>,
         \<lparr>arrived = [], resumedAt = 7700, succeeded = True\<rparr>]
        ((newTester ''dev'' ''1234'' ''series'' 30 1000)\<lparr>launchOnly := True\<rparr>)
        = Some (res, w', es')
      \<and> success res \<and> totalTests res = 1 \<and> length (testResults w') = 1)
   \<and> (\<exists>res w' es'.
        runTests [\<lparr>arrived = [], resumedAt = 11000, succeeded = False\<rparr>]
          (newTester ''dev'' ''1234'' ''series'' 30 1000) = Some (res, w', es')
      \<and> \<not> success res \<and> testResults w' = [])"
proof -
  let ?es = "[\<lparr>arrived = [], resumedAt = 1100, succeeded = True\<rparr>,
         \<lparr>arrived = [], resumedAt = 4100, succeeded = True\<rparr>,
         \<lparr>arrived = [], resumedAt = 4200, succeeded = True\<rparr>,
         \<lparr>arrived = [''AppLaunchComplete Duration(5 ms)''], resumedAt = 4700, succeeded = True\<rparr>,
         \<lparr>arrived = [], resumedAt = 7700, succeeded = True\<rparr>]"
  let ?w = "(newTester ''dev'' ''1234'' ''series'' 30 1000)\<lparr>launchOnly := True\<rparr>"
  have "map_option (\<lambda>(res, w', es'). (totalTests res, map passed (testResults w')))
          (runTests ?es ?w) = Some (1, [True])"
    by (simp add: seq_defs run_defs)
  then obtain res w' es' where run: "runTests ?es ?w = Some (res, w', es')"
    and tt: "totalTests res = 1" and mp: "map passed (testResults w') = [True]"
    by auto
  from mp have all: "testResults w' \<noteq> [] \<and> (\<forall>t\<in>set (testResults w'). passed t)"
    and len: "length (testResults w') = 1"
    by (auto simp: map_eq_Cons_conv)
  have noexn: "\<And>x. runTestsBody ?es ?w \<noteq> Some (Inl x, w', es')"
    by (simp add: seq_defs run_defs)
  from runTests_success[of ?w ?es res w' es'] run noexn all
  have "success res" by blast
  with run tt len have A: "\<exists>res w' es'. runTests ?es ?w = Some (res, w', es')
      \<and> success res \<and> totalTests res = 1 \<and> length (testResults w') = 1" by blast
  let ?fs = "[\<lparr>arrived = [], resumedAt = 11000, succeeded = False\<rparr>]"
  let ?v = "newTester ''dev'' ''1234'' ''series'' 30 1000"
  have "map_option (\<lambda>(res, w', es'). testResults w') (runTests ?fs ?v) = Some []"
    by (simp add: seq_defs run_defs)
  then obtain res2 w2 es2 where run2: "runTests ?fs ?v = Some (res2, w2, es2)"
    and t2: "testResults w2 = []" by auto
  from runTests_success[of ?v ?fs res2 w2 es2] run2 t2
  have "\<not> success res2" by auto
  with run2 t2 have B: "\<exists>res w' es'. runTests ?fs ?v = Some (res, w', es')
      \<and> \<not> success res \<and> testResults w' = []" by blast
  from A B show ?thesis by blast
qed

end
